theory Spec2Isabelle
  imports Main
begin

section \<open>The package dl: HTTP downloads to local files\<close>

text \<open>
  A shallow embedding of \<^verbatim>\<open>src/dl.go\<close>. The four functions of the package talk to
  three things outside it: the Go standard library (pure functions), the HTTP client
  and the file system. The library functions whose behaviour the package's control flow
  depends on (\<^verbatim>\<open>strconv.ParseInt\<close>, \<^verbatim>\<open>http.Header.Get/Set\<close>,
  \<^verbatim>\<open>http.Request.AddCookie\<close>, \<^verbatim>\<open>io.Copy\<close>) are written out from their documented
  behaviour; everything the network and the operating system decide is a field of the
  record \<open>world\<close>, which every function takes and returns.
\<close>

subsection \<open>Errors, panics and results\<close>

text \<open>
  Go's \<^verbatim>\<open>error\<close> values, by where they come from: \<^verbatim>\<open>url.Parse\<close> inside
  \<^verbatim>\<open>http.NewRequest\<close>, the HTTP transport, the file system, and \<^verbatim>\<open>strconv\<close>
  (\<^verbatim>\<open>ErrSyntax\<close>, \<^verbatim>\<open>ErrRange\<close>). A Go function returning \<^verbatim>\<open>(T, error)\<close> is
  modelled as returning a pair \<open>(T, error option)\<close>, \<open>None\<close> being \<^verbatim>\<open>nil\<close>: Go returns
  both components, and \<^verbatim>\<open>io.Copy\<close> returns a byte count together with an error.
  A run-time panic (a nil pointer dereference) is the outcome \<open>Panic\<close>.
\<close>

datatype error =
    UrlError string
  | NetError string
  | PathError string
  | ErrSyntax
  | ErrRange

datatype 'a outcome = Panic | Return 'a

subsection \<open>Characters\<close>

definition isDigit :: "char \<Rightarrow> bool" where
  "isDigit c = (48 \<le> (of_char c :: nat) \<and> (of_char c :: nat) \<le> 57)"

definition isLower :: "char \<Rightarrow> bool" where
  "isLower c = (97 \<le> (of_char c :: nat) \<and> (of_char c :: nat) \<le> 122)"

definition isUpper :: "char \<Rightarrow> bool" where
  "isUpper c = (65 \<le> (of_char c :: nat) \<and> (of_char c :: nat) \<le> 90)"

definition toUpper :: "char \<Rightarrow> char" where
  "toUpper c = char_of ((of_char c :: nat) - 32)"

definition toLower :: "char \<Rightarrow> char" where
  "toLower c = char_of ((of_char c :: nat) + 32)"

subsection \<open>strconv.ParseInt(s, 10, 0)\<close>

text \<open>
  \<^verbatim>\<open>strconv.ParseInt\<close> with base 10 and bit size 0, that is the size of \<^verbatim>\<open>int\<close>,
  taken to be 64 bits. \<open>ParseUint_loop\<close> is the digit loop of \<^verbatim>\<open>strconv.ParseUint\<close>:
  a byte that is no digit is a syntax error, a value beyond \<open>2^64 - 1\<close> a range error
  (reported where the loop meets it). \<open>ParseInt\<close> picks off one sign, and a magnitude
  outside \<open>[-2^63, 2^63 - 1]\<close> is a range error whose value is the nearest bound.
\<close>

definition maxUint64 :: nat where
  "maxUint64 = 2 ^ 64 - 1"

fun ParseUint_loop :: "nat \<Rightarrow> string \<Rightarrow> nat \<times> error option" where
  "ParseUint_loop n [] = (n, None)"
| "ParseUint_loop n (c # cs) =
     (if \<not> isDigit c then (0, Some ErrSyntax)
      else if n \<ge> maxUint64 div 10 + 1 then (maxUint64, Some ErrRange)
      else (let n1 = n * 10 + ((of_char c :: nat) - 48)
            in if n1 > maxUint64 then (maxUint64, Some ErrRange)
               else ParseUint_loop n1 cs))"

definition ParseUint :: "string \<Rightarrow> nat \<times> error option" where
  "ParseUint s = (if s = [] then (0, Some ErrSyntax) else ParseUint_loop 0 s)"

definition ParseInt :: "string \<Rightarrow> int \<times> error option" where
  "ParseInt s =
     (if s = [] then (0, Some ErrSyntax)
      else
        (let neg = (hd s = CHR ''-'');
             s1 = (if hd s = CHR ''+'' \<or> hd s = CHR ''-'' then tl s else s);
             (un, err) = ParseUint s1
         in if err \<noteq> None \<and> err \<noteq> Some ErrRange then (0, err)
            else if \<not> neg \<and> un \<ge> 2 ^ 63 then (2 ^ 63 - 1, Some ErrRange)
            else if neg \<and> un > 2 ^ 63 then (- (2 ^ 63), Some ErrRange)
            else (if neg then - int un else int un, None)))"

subsection \<open>HTTP headers, requests and responses\<close>

text \<open>
  \<^verbatim>\<open>http.Header\<close> is \<^verbatim>\<open>map[string][]string\<close>. \<^verbatim>\<open>Get\<close> and \<^verbatim>\<open>Set\<close> first bring
  the key into canonical form (\<^verbatim>\<open>textproto.CanonicalMIMEHeaderKey\<close>): the first letter
  and every letter after a hyphen in upper case, the others in lower case; a key with a
  byte that is not a token character of RFC 7230 is left as it is.
\<close>

type_synonym header = "string \<rightharpoonup> string list"

definition validHeaderFieldByte :: "char \<Rightarrow> bool" where
  "validHeaderFieldByte c =
     (isDigit c \<or> isLower c \<or> isUpper c \<or>
      (of_char c :: nat) \<in> {33, 35, 36, 37, 38, 39, 42, 43, 45, 46, 94, 95, 96, 124, 126})"

fun canonicalize :: "bool \<Rightarrow> string \<Rightarrow> string" where
  "canonicalize upper [] = []"
| "canonicalize upper (c # cs) =
     (let c' = (if upper \<and> isLower c then toUpper c
                else if \<not> upper \<and> isUpper c then toLower c
                else c)
      in c' # canonicalize (c' = CHR ''-'') cs)"

definition CanonicalMIMEHeaderKey :: "string \<Rightarrow> string" where
  "CanonicalMIMEHeaderKey s =
     (if list_all validHeaderFieldByte s then canonicalize True s else s)"

definition Header_Get :: "header \<Rightarrow> string \<Rightarrow> string" where
  "Header_Get h key =
     (case h (CanonicalMIMEHeaderKey key) of
        None \<Rightarrow> []
      | Some [] \<Rightarrow> []
      | Some (v # vs) \<Rightarrow> v)"

definition Header_Set :: "header \<Rightarrow> string \<Rightarrow> string \<Rightarrow> header" where
  "Header_Set h key v = h(CanonicalMIMEHeaderKey key \<mapsto> [v])"

record request =
  req_Method :: string
  req_URL :: string
  req_Header :: header

text \<open>
  A response as the package reads it: status, headers, and the body stream, which yields
  the bytes \<open>Body\<close> and then ends, with \<^verbatim>\<open>io.EOF\<close> (\<open>Body_err = None\<close>) or with a read
  error. Bytes are \<open>char\<close>s.
\<close>

record response =
  StatusCode :: int
  Status :: string
  resp_Header :: header
  Body :: string
  Body_err :: "string option"

text \<open>The two fields of \<^verbatim>\<open>http.Cookie\<close> that \<^verbatim>\<open>AddCookie\<close> reads.\<close>

record cookie =
  cookie_Name :: string
  cookie_Value :: string

subsection \<open>The world\<close>

text \<open>
  State the package reads and writes:
  \<^item> \<open>userAgent\<close>: the package variable of that name;
  \<^item> \<open>files\<close>: the paths \<^verbatim>\<open>os.Stat\<close> succeeds on, with the bytes behind each;
  \<^item> \<open>requests\<close>: the requests handed to \<^verbatim>\<open>client.Do\<close> so far, in order;
  \<^item> \<open>trace\<close>: what was printed and logged, and the directories asked for.

  What the environment decides, never changed by the package:
  \<^item> \<open>server\<close>: the outcome of the \<open>n\<close>-th call of \<^verbatim>\<open>client.Do\<close> (counting from 0), given
    the request: a transport error or the response;
  \<^item> \<open>open_fails\<close>, \<open>fstat_fails\<close>, \<open>openrw_fails\<close>, \<open>create_fails\<close>: whether
    \<^verbatim>\<open>os.Open\<close>, \<^verbatim>\<open>File.Stat\<close>, \<^verbatim>\<open>os.OpenFile(O_RDWR)\<close> and \<^verbatim>\<open>os.Create\<close> fail
    on a path, and with what message;
  \<^item> \<open>write_fails\<close>: \<open>Some (k, e)\<close> when writing to the path fails with \<open>e\<close> once \<open>k\<close>
    bytes have been written;
  \<^item> \<open>url_Parse_fails\<close>: whether \<^verbatim>\<open>url.Parse\<close> (inside \<^verbatim>\<open>http.NewRequest\<close>) rejects
    a URL text;
  \<^item> \<open>sanitizeCookieName\<close>, \<open>sanitizeCookieValue\<close>: the two sanitizers of package
    \<^verbatim>\<open>net/http\<close> that \<^verbatim>\<open>AddCookie\<close> applies.
\<close>

datatype event =
    Debug_Status int string
  | Debug_ContentType string
  | Debugf_NoContentLength string
  | Printf_Skipping string nat
  | Printf_Downloading string nat
  | MkdirAll_Dir string

record world =
  userAgent :: string
  files :: "string \<rightharpoonup> string"
  requests :: "request list"
  trace :: "event list"
  server :: "nat \<Rightarrow> request \<Rightarrow> string + response"
  open_fails :: "string \<Rightarrow> string option"
  fstat_fails :: "string \<Rightarrow> string option"
  openrw_fails :: "string \<Rightarrow> string option"
  create_fails :: "string \<Rightarrow> string option"
  write_fails :: "string \<Rightarrow> (nat \<times> string) option"
  url_Parse_fails :: "string \<Rightarrow> string option"
  sanitizeCookieName :: "string \<Rightarrow> string"
  sanitizeCookieValue :: "string \<Rightarrow> string"

subsection \<open>Library and system calls\<close>

text \<open>
  \<^verbatim>\<open>http.NewRequest("GET", url, nil)\<close>: the method is valid, so the only failure is
  \<^verbatim>\<open>url.Parse\<close>; the new request has no header.
\<close>

definition http_NewRequest :: "world \<Rightarrow> string \<Rightarrow> string \<Rightarrow> error + request" where
  "http_NewRequest w method url =
     (case url_Parse_fails w url of
        Some e \<Rightarrow> Inl (UrlError e)
      | None \<Rightarrow> Inr \<lparr>req_Method = method, req_URL = url, req_Header = Map.empty\<rparr>)"

definition req_Header_Set :: "request \<Rightarrow> string \<Rightarrow> string \<Rightarrow> request" where
  "req_Header_Set req key v = req\<lparr>req_Header := Header_Set (req_Header req) key v\<rparr>"

text \<open>
  \<^verbatim>\<open>Request.AddCookie\<close> writes \<^verbatim>\<open>name=value\<close>, both sanitized, into the one header
  \<^verbatim>\<open>Cookie\<close>, after \<^verbatim>\<open>"; "\<close> when the header already has a value. The argument is a
  pointer: on \<^verbatim>\<open>nil\<close> (\<open>None\<close>) reading its name panics.
\<close>

definition AddCookie :: "world \<Rightarrow> request \<Rightarrow> cookie option \<Rightarrow> request option" where
  "AddCookie w req c =
     (case c of
        None \<Rightarrow> None
      | Some ck \<Rightarrow>
          (let s = sanitizeCookieName w (cookie_Name ck) @ ''='' @
                   sanitizeCookieValue w (cookie_Value ck);
               cur = Header_Get (req_Header req) ''Cookie''
           in if cur \<noteq> [] then Some (req_Header_Set req ''Cookie'' (cur @ ''; '' @ s))
              else Some (req_Header_Set req ''Cookie'' s)))"

text \<open>\<^verbatim>\<open>for _, c := range *cookies { req.AddCookie(c) }\<close>; \<open>None\<close> is a panic.\<close>

fun AddCookies :: "world \<Rightarrow> request \<Rightarrow> cookie option list \<Rightarrow> request option" where
  "AddCookies w req [] = Some req"
| "AddCookies w req (c # cs) =
     (case AddCookie w req c of
        None \<Rightarrow> None
      | Some req' \<Rightarrow> AddCookies w req' cs)"

text \<open>
  \<^verbatim>\<open>for k, v := range headers { req.Header.Set(k, v) }\<close>. The Go map is given as the
  list of its entries in the order the loop visits them (Go leaves the order open).
\<close>

fun SetHeaders :: "request \<Rightarrow> (string \<times> string) list \<Rightarrow> request" where
  "SetHeaders req [] = req"
| "SetHeaders req ((k, v) # kvs) = SetHeaders (req_Header_Set req k v) kvs"

text \<open>
  \<^verbatim>\<open>client.Do(req)\<close>: the request is recorded, the world's server answers the call.
\<close>

definition client_Do :: "world \<Rightarrow> request \<Rightarrow> (error + response) \<times> world" where
  "client_Do w req =
     ((case server w (length (requests w)) req of
         Inl e \<Rightarrow> Inl (NetError e)
       | Inr resp \<Rightarrow> Inr resp),
      w\<lparr>requests := requests w @ [req]\<rparr>)"

text \<open>\<^verbatim>\<open>ioutil.ReadAll(resp.Body)\<close>: the bytes read, and the error unless it is EOF.\<close>

definition ioutil_ReadAll :: "response \<Rightarrow> string \<times> error option" where
  "ioutil_ReadAll resp = (Body resp, map_option NetError (Body_err resp))"

text \<open>
  \<^verbatim>\<open>os.Open\<close> gives the open file (here: its bytes), \<^verbatim>\<open>File.Stat\<close> its size.
\<close>

definition os_Open :: "world \<Rightarrow> string \<Rightarrow> error + string" where
  "os_Open w path =
     (case files w path of
        None \<Rightarrow> Inl (PathError ''no such file or directory'')
      | Some bytes \<Rightarrow>
          (case open_fails w path of
             Some e \<Rightarrow> Inl (PathError e)
           | None \<Rightarrow> Inr bytes))"

definition File_Stat_Size :: "world \<Rightarrow> string \<Rightarrow> string \<Rightarrow> error + int" where
  "File_Stat_Size w path bytes =
     (case fstat_fails w path of
        Some e \<Rightarrow> Inl (PathError e)
      | None \<Rightarrow> Inr (int (length bytes)))"

text \<open>
  \<^verbatim>\<open>os.OpenFile(path, os.O_RDWR, 0775)\<close>: the flags are \<^verbatim>\<open>O_RDWR\<close> alone, so the file
  is opened at offset 0 with its bytes in place. \<^verbatim>\<open>os.Create\<close> is
  \<^verbatim>\<open>O_RDWR|O_CREATE|O_TRUNC\<close>: the file is there and empty afterwards.
\<close>

definition os_OpenFile_RDWR :: "world \<Rightarrow> string \<Rightarrow> error option" where
  "os_OpenFile_RDWR w path =
     (case files w path of
        None \<Rightarrow> Some (PathError ''no such file or directory'')
      | Some bytes \<Rightarrow> map_option PathError (openrw_fails w path))"

definition os_Create :: "world \<Rightarrow> string \<Rightarrow> error option \<times> world" where
  "os_Create w path =
     (case create_fails w path of
        Some e \<Rightarrow> (Some (PathError e), w)
      | None \<Rightarrow> (None, w\<lparr>files := (files w)(path \<mapsto> [])\<rparr>))"

text \<open>
  \<^verbatim>\<open>io.Copy(out, resp.Body)\<close> with \<open>out\<close> open on \<open>path\<close> at offset 0: every byte read is
  written before a read error is looked at; a failing write stops the copy. The bytes
  written replace the bytes at the same offsets, the file grows when they reach past its
  end, and whatever the file held beyond them stays. The result is the number of
  bytes written and the first error met.
\<close>

definition io_Copy :: "world \<Rightarrow> string \<Rightarrow> response \<Rightarrow> (int \<times> error option) \<times> world" where
  "io_Copy w path resp =
     (let stream = Body resp;
          old = (case files w path of None \<Rightarrow> [] | Some bytes \<Rightarrow> bytes);
          (n, err) =
            (case write_fails w path of
               None \<Rightarrow> (length stream, map_option NetError (Body_err resp))
             | Some (k, e) \<Rightarrow>
                 if k < length stream then (k, Some (PathError e))
                 else (length stream, map_option NetError (Body_err resp)))
      in ((int n, err), w\<lparr>files := (files w)(path \<mapsto> take n stream @ drop n old)\<rparr>))"

definition emit :: "world \<Rightarrow> event \<Rightarrow> world" where
  "emit w ev = w\<lparr>trace := trace w @ [ev]\<rparr>"

text \<open>\<^verbatim>\<open>uint64(length)\<close> for an \<^verbatim>\<open>int64\<close>.\<close>

definition uint64 :: "int \<Rightarrow> nat" where
  "uint64 i = nat (i mod 2 ^ 64)"

subsection \<open>The package\<close>

text \<open>\<open>SetUserAgent\<close> (lines 42--44) and \<open>FileExists\<close> (lines 47--52, \<^verbatim>\<open>os.Stat\<close> succeeds).\<close>

definition SetUserAgent :: "world \<Rightarrow> string \<Rightarrow> world" where
  "SetUserAgent w ua = w\<lparr>userAgent := ua\<rparr>"

definition FileExists :: "world \<Rightarrow> string \<Rightarrow> bool" where
  "FileExists w filename = (files w filename \<noteq> None)"

text \<open>
  The four functions of the package open with the same statements (lines 56--67, 80--92,
  99--111 and 158--170): \<^verbatim>\<open>u.String()\<close>, which panics on a nil \<open>u\<close>;
  \<^verbatim>\<open>http.NewRequest\<close>, whose error is returned at once; the user agent; the cookies,
  read through the pointer \<open>cookies\<close>, which panics when it is nil; the headers.
  \<open>newRequest\<close> is that prologue: \<open>Return (Inl err)\<close> is the early return.
  A \<^verbatim>\<open>*url.URL\<close> is given by the text \<^verbatim>\<open>u.String()\<close> yields.
\<close>

definition newRequest ::
  "world \<Rightarrow> string option \<Rightarrow> (string \<times> string) list \<Rightarrow> cookie option list option \<Rightarrow>
   (error + request) outcome" where
  "newRequest w u headers cookies =
     (case u of
        None \<Rightarrow> Panic
      | Some url \<Rightarrow>
          (case http_NewRequest w ''GET'' url of
             Inl err \<Rightarrow> Return (Inl err)
           | Inr req \<Rightarrow>
               (let req1 = req_Header_Set req ''User-Agent'' (userAgent w)
                in case cookies of
                     None \<Rightarrow> Panic
                   | Some cs \<Rightarrow>
                       (case AddCookies w req1 cs of
                          None \<Rightarrow> Panic
                        | Some req2 \<Rightarrow> Return (Inr (SetHeaders req2 headers))))))"

text \<open>
  \<open>GetBodyFromURL\<close>, lines 55--76: the prologue, \<^verbatim>\<open>client.Do\<close>, whose error is returned
  with a nil slice, and \<^verbatim>\<open>ioutil.ReadAll\<close> on the body, whose result is returned as it
  is. The status code is not read.
\<close>

definition GetBodyFromURL ::
  "world \<Rightarrow> string option \<Rightarrow> (string \<times> string) list \<Rightarrow> cookie option list option \<Rightarrow>
   (string \<times> error option) outcome \<times> world" where
  "GetBodyFromURL w u headers cookies =
     (case newRequest w u headers cookies of
        Panic \<Rightarrow> (Panic, w)
      | Return (Inl err) \<Rightarrow> (Return ([], Some err), w)
      | Return (Inr req) \<Rightarrow>
          (case client_Do w req of
             (Inl err, w1) \<Rightarrow> (Return ([], Some err), w1)
           | (Inr resp, w1) \<Rightarrow> (Return (ioutil_ReadAll resp), w1)))"

text \<open>\<open>GetRespFromURL\<close>, lines 79--95: the prologue, then whatever \<^verbatim>\<open>client.Do\<close> returns.\<close>

definition GetRespFromURL ::
  "world \<Rightarrow> string option \<Rightarrow> (string \<times> string) list \<Rightarrow> cookie option list option \<Rightarrow>
   (error + response) outcome \<times> world" where
  "GetRespFromURL w u headers cookies =
     (case newRequest w u headers cookies of
        Panic \<Rightarrow> (Panic, w)
      | Return (Inl err) \<Rightarrow> (Return (Inl err), w)
      | Return (Inr req) \<Rightarrow>
          (case client_Do w req of (r, w1) \<Rightarrow> (Return r, w1)))"

text \<open>
  \<open>writeToFileFromURL\<close>, lines 157--209. After the prologue and \<^verbatim>\<open>client.Do\<close> it logs
  the status and the content type (lines 179--180), parses \<^verbatim>\<open>Content-Length\<close> and logs
  when that fails (lines 182--185), without returning. When the destination exists it is
  opened with \<^verbatim>\<open>os.O_RDWR\<close> (line 190); otherwise \<^verbatim>\<open>os.MkdirAll\<close> is called, its result
  dropped, and the file is created (lines 197--198). A failure to open or create is
  returned with the count 0. Then the progress line is printed with the parsed length
  (line 206) and the result of \<^verbatim>\<open>io.Copy\<close> is returned (line 208). The directories
  themselves are not modelled: \<open>MkdirAll_Dir\<close> records the call, and whether the creation
  that follows succeeds is the world's \<open>create_fails\<close>.
\<close>

definition writeToFileFromURL ::
  "world \<Rightarrow> string \<Rightarrow> string option \<Rightarrow> (string \<times> string) list \<Rightarrow>
   cookie option list option \<Rightarrow> (int \<times> error option) outcome \<times> world" where
  "writeToFileFromURL w fileloc u headers cookies =
     (case newRequest w u headers cookies of
        Panic \<Rightarrow> (Panic, w)
      | Return (Inl err) \<Rightarrow> (Return (0, Some err), w)
      | Return (Inr req) \<Rightarrow>
          (case client_Do w req of
             (Inl err, w1) \<Rightarrow> (Return (0, Some err), w1)
           | (Inr resp, w1) \<Rightarrow>
               (let w2 = emit w1 (Debug_Status (StatusCode resp) (Status resp));
                    w3 = emit w2 (Debug_ContentType (Header_Get (resp_Header resp) ''Content-Type''));
                    (clen, perr) = ParseInt (Header_Get (resp_Header resp) ''Content-Length'');
                    w4 = (if perr \<noteq> None then emit w3 (Debugf_NoContentLength (req_URL req))
                          else w3)
                in if FileExists w4 fileloc then
                     (case os_OpenFile_RDWR w4 fileloc of
                        Some err \<Rightarrow> (Return (0, Some err), w4)
                      | None \<Rightarrow>
                          (case io_Copy (emit w4 (Printf_Downloading fileloc (uint64 clen)))
                                  fileloc resp of
                             (r, w') \<Rightarrow> (Return r, w')))
                   else
                     (case os_Create (emit w4 (MkdirAll_Dir fileloc)) fileloc of
                        (Some err, w5) \<Rightarrow> (Return (0, Some err), w5)
                      | (None, w5) \<Rightarrow>
                          (case io_Copy (emit w5 (Printf_Downloading fileloc (uint64 clen)))
                                  fileloc resp of
                             (r, w') \<Rightarrow> (Return r, w'))))))"

text \<open>
  \<open>DownloadFile\<close>, lines 98--155. After the prologue: no file at the destination, the
  unconditional download at once (lines 113--116). Otherwise the request built by the
  prologue is sent (line 118) and its error returned with the count 0 (lines 119--122);
  an empty \<^verbatim>\<open>Content-Length\<close> (lines 125--128) or one that does not parse (lines
  130--134) leads to the unconditional download; a failure of \<^verbatim>\<open>os.Open\<close> or
  \<^verbatim>\<open>File.Stat\<close> is returned with the count 0 (lines 136--146); equal sizes print the
  line \<^verbatim>\<open>Skipping\<close> and return 0 and no error (lines 149--152); otherwise the
  unconditional download (line 154).
\<close>

definition DownloadFile ::
  "world \<Rightarrow> string \<Rightarrow> string option \<Rightarrow> (string \<times> string) list \<Rightarrow>
   cookie option list option \<Rightarrow> (int \<times> error option) outcome \<times> world" where
  "DownloadFile w fileloc u headers cookies =
     (case newRequest w u headers cookies of
        Panic \<Rightarrow> (Panic, w)
      | Return (Inl err) \<Rightarrow> (Return (0, Some err), w)
      | Return (Inr req) \<Rightarrow>
          if \<not> FileExists w fileloc then writeToFileFromURL w fileloc u headers cookies
          else
            (case client_Do w req of
               (Inl err, w1) \<Rightarrow> (Return (0, Some err), w1)
             | (Inr head, w1) \<Rightarrow>
                 if Header_Get (resp_Header head) ''Content-Length'' = [] then
                   writeToFileFromURL w1 fileloc u headers cookies
                 else
                   (case ParseInt (Header_Get (resp_Header head) ''Content-Length'') of
                      (clen, Some err) \<Rightarrow> writeToFileFromURL w1 fileloc u headers cookies
                    | (clen, None) \<Rightarrow>
                        (case os_Open w1 fileloc of
                           Inl err \<Rightarrow> (Return (0, Some err), w1)
                         | Inr f \<Rightarrow>
                             (case File_Stat_Size w1 fileloc f of
                                Inl err \<Rightarrow> (Return (0, Some err), w1)
                              | Inr sz \<Rightarrow>
                                  if sz = clen then
                                    (Return (0, None),
                                     emit w1 (Printf_Skipping fileloc (uint64 clen)))
                                  else writeToFileFromURL w1 fileloc u headers cookies)))))"

subsection \<open>Example worlds\<close>

text \<open>
  Concrete worlds on which the statements below are run. \<open>world0\<close> has the initial
  user agent of the package, no file and a server that refuses every connection; no
  system call fails by itself; of the URL texts used, \<^verbatim>\<open>url.Parse\<close> rejects
  \<^verbatim>\<open>http://[::1\<close>, a host with an unclosed bracket; the cookie sanitizers leave the
  names and values used here as they are. The other worlds change the file at
  \<^verbatim>\<open>a.bin\<close>, the answers of the server, or one system call. \<open>reply code clen bytes\<close> is
  a response with that status, the header \<^verbatim>\<open>Content-Length: clen\<close> and that body;
  \<open>plain_request\<close> is the request the prologue builds for
  \<^verbatim>\<open>http://example.com/a.bin\<close> without headers and cookies.
\<close>

definition world0 :: world where
  "world0 =
     \<lparr>userAgent = ''dl v0.0.1'',
      files = Map.empty,
      requests = [],
      trace = [],
      server = (\<lambda>n req. Inl ''connection refused''),
      open_fails = (\<lambda>path. None),
      fstat_fails = (\<lambda>path. None),
      openrw_fails = (\<lambda>path. None),
      create_fails = (\<lambda>path. None),
      write_fails = (\<lambda>path. None),
      url_Parse_fails = (\<lambda>url. if url = ''http://[::1'' then Some ''missing ] in host'' else None),
      sanitizeCookieName = (\<lambda>s. s),
      sanitizeCookieValue = (\<lambda>s. s)\<rparr>"

definition reply :: "int \<Rightarrow> string \<Rightarrow> string \<Rightarrow> response" where
  "reply code clen bytes =
     \<lparr>StatusCode = code, Status = ''status'',
      resp_Header = [''Content-Length'' \<mapsto> [clen]],
      Body = bytes, Body_err = None\<rparr>"

definition plain_request :: request where
  "plain_request =
     \<lparr>req_Method = ''GET'', req_URL = ''http://example.com/a.bin'',
      req_Header = [''User-Agent'' \<mapsto> [''dl v0.0.1'']]\<rparr>"

definition world_same_size :: world where
  "world_same_size =
     world0\<lparr>files := [''a.bin'' \<mapsto> ''hello''],
            server := (\<lambda>n req. Inr (reply 200 ''5'' ''world''))\<rparr>"

definition world_shorter :: world where
  "world_shorter =
     world0\<lparr>files := [''a.bin'' \<mapsto> ''hello''],
            server := (\<lambda>n req. Inr (reply 200 ''2'' ''hi''))\<rparr>"

definition world_absent :: world where
  "world_absent =
     world0\<lparr>server := (\<lambda>n req. Inr (reply 200 ''1024'' (replicate 1024 (CHR ''x''))))\<rparr>"

definition reply_without_length :: "string \<Rightarrow> response" where
  "reply_without_length bytes =
     \<lparr>StatusCode = 200, Status = ''status'', resp_Header = Map.empty,
      Body = bytes, Body_err = None\<rparr>"

definition world_prelim_fails :: world where
  "world_prelim_fails =
     world0\<lparr>files := [''a.bin'' \<mapsto> ''hello''],
            server := (\<lambda>n req. if n = 0 then Inl ''connection reset''
                                 else Inr (reply 200 ''5'' ''world''))\<rparr>"

definition world_no_length :: world where
  "world_no_length =
     world0\<lparr>files := [''a.bin'' \<mapsto> ''hello''],
            server := (\<lambda>n req. Inr (reply_without_length ''worlds!''))\<rparr>"

definition world_bad_length :: world where
  "world_bad_length =
     world0\<lparr>files := [''a.bin'' \<mapsto> ''hello''],
            server := (\<lambda>n req. Inr (reply 200 ''12a'' ''worlds!''))\<rparr>"

definition world_negative_length :: world where
  "world_negative_length =
     world0\<lparr>files := [''a.bin'' \<mapsto> ''hello''],
            server := (\<lambda>n req. Inr (reply 200 ''-5'' ''worlds!''))\<rparr>"


definition world_unreadable :: world where
  "world_unreadable = world_same_size\<lparr>open_fails := (\<lambda>path. Some ''permission denied'')\<rparr>"

definition world_stat_fails :: world where
  "world_stat_fails = world_same_size\<lparr>fstat_fails := (\<lambda>path. Some ''input/output error'')\<rparr>"

definition world_not_found :: world where
  "world_not_found = world0\<lparr>server := (\<lambda>n req. Inr (reply 404 ''9'' ''not found''))\<rparr>"

subsection \<open>Notions used in the statements about headers and cookies\<close>

text \<open>
  Two header names are the same name when they agree up to the case of ASCII letters.
  \<open>cookie_pair\<close> is the text \<^verbatim>\<open>name=value\<close> that \<^verbatim>\<open>AddCookie\<close> writes for a cookie,
  \<open>cookie_line\<close> the value of a \<^verbatim>\<open>Cookie\<close> header that lists cookies in order.
\<close>

definition lower :: "char \<Rightarrow> char" where
  "lower c = (if isUpper c then toLower c else c)"

definition same_name :: "string \<Rightarrow> string \<Rightarrow> bool" where
  "same_name a b = (map lower a = map lower b)"

definition cookie_pair :: "world \<Rightarrow> cookie \<Rightarrow> string" where
  "cookie_pair w c =
     sanitizeCookieName w (cookie_Name c) @ ''='' @ sanitizeCookieValue w (cookie_Value c)"

fun join :: "string \<Rightarrow> string list \<Rightarrow> string" where
  "join sep [] = []"
| "join sep [x] = x"
| "join sep (x # y # ys) = x @ sep @ join sep (y # ys)"

definition cookie_line :: "world \<Rightarrow> cookie list \<Rightarrow> string" where
  "cookie_line w cs = join ''; '' (map (cookie_pair w) cs)"

definition example_headers :: "(string \<times> string) list" where
  "example_headers = [(''user-agent'', ''curl/8''), (''Accept'', ''text/plain'')]"

definition example_cookies :: "cookie option list option" where
  "example_cookies =
     Some [Some \<lparr>cookie_Name = ''a'', cookie_Value = ''b''\<rparr>,
           Some \<lparr>cookie_Name = ''c'', cookie_Value = ''d''\<rparr>]"

section \<open>Properties\<close>

subsection \<open>Evaluations of the library functions\<close>

text \<open>
  The canonical form of the header names that occur, and \<^verbatim>\<open>ParseInt\<close> on the header
  values of the examples.
\<close>

lemma canon_User_Agent [simp]: "CanonicalMIMEHeaderKey ''User-Agent'' = ''User-Agent''"
  by code_simp

lemma canon_Cookie [simp]: "CanonicalMIMEHeaderKey ''Cookie'' = ''Cookie''"
  by code_simp

lemma canon_Content_Length [simp]: "CanonicalMIMEHeaderKey ''Content-Length'' = ''Content-Length''"
  by code_simp

lemma canon_Content_Type [simp]: "CanonicalMIMEHeaderKey ''Content-Type'' = ''Content-Type''"
  by code_simp

lemma canon_lower_cookie [simp]: "CanonicalMIMEHeaderKey ''cookie'' = ''Cookie''"
  by code_simp

lemma canon_lower_user_agent [simp]: "CanonicalMIMEHeaderKey ''user-agent'' = ''User-Agent''"
  by code_simp

lemma canon_Accept [simp]: "CanonicalMIMEHeaderKey ''Accept'' = ''Accept''"
  by code_simp

lemma valid_User_Agent: "list_all validHeaderFieldByte ''User-Agent''"
  by code_simp

lemma valid_Cookie: "list_all validHeaderFieldByte ''Cookie''"
  by code_simp

lemma valid_lower_user_agent: "list_all validHeaderFieldByte ''user-agent''"
  by code_simp

lemma ParseInt_Nil [simp]: "ParseInt [] = (0, Some ErrSyntax)"
  by (simp add: ParseInt_def)

lemma ParseInt_5 [simp]: "ParseInt ''5'' = (5, None)"
  by (simp add: ParseInt_def ParseUint_def isDigit_def maxUint64_def)

lemma ParseInt_2 [simp]: "ParseInt ''2'' = (2, None)"
  by (simp add: ParseInt_def ParseUint_def isDigit_def maxUint64_def)

lemma ParseInt_12a [simp]: "ParseInt ''12a'' = (0, Some ErrSyntax)"
  by (simp add: ParseInt_def ParseUint_def isDigit_def maxUint64_def)

lemma ParseInt_minus_5 [simp]: "ParseInt ''-5'' = (- 5, None)"
  by (simp add: ParseInt_def ParseUint_def isDigit_def maxUint64_def)

subsection \<open>Header names up to case\<close>

text \<open>
  The canonical key of a valid header name depends on the name up to case only, and two
  valid names with the same canonical key are the same name up to case.
\<close>

lemma of_char_toLower: "isUpper c \<Longrightarrow> (of_char (toLower c) :: nat) = of_char c + 32"
  by (simp add: isUpper_def toLower_def)

lemma of_char_toUpper:
  assumes "isLower c"
  shows "(of_char (toUpper c) :: nat) = of_char c - 32"
proof -
  have "(of_char c :: nat) - 32 < 256"
    using assms unfolding isLower_def by arith
  then show ?thesis
    by (simp add: toUpper_def)
qed

lemma toUpper_toLower: "isUpper c \<Longrightarrow> toUpper (toLower c) = c"
  by (simp add: toUpper_def of_char_toLower)

lemma toLower_toUpper: "isLower c \<Longrightarrow> toLower (toUpper c) = c"
  by (simp add: toLower_def of_char_toUpper isLower_def)

lemma isLower_toLower: "isUpper c \<Longrightarrow> isLower (toLower c)"
  by (simp add: isLower_def of_char_toLower) (simp add: isUpper_def)

lemma isUpper_toUpper: "isLower c \<Longrightarrow> isUpper (toUpper c)"
  unfolding isUpper_def by (simp add: of_char_toUpper) (unfold isLower_def, arith)

lemma not_both_cases: "isUpper c \<Longrightarrow> \<not> isLower c"
  by (simp add: isUpper_def isLower_def)

lemma hyphen_no_letter [simp]: "\<not> isUpper CHR ''-''" "\<not> isLower CHR ''-''"
  by (simp_all add: isUpper_def isLower_def)

lemma lower_head:
  "(if up \<and> isLower (lower c) then toUpper (lower c)
    else if \<not> up \<and> isUpper (lower c) then toLower (lower c)
    else lower c) =
   (if up \<and> isLower c then toUpper c
    else if \<not> up \<and> isUpper c then toLower c
    else c)"
proof (cases "isUpper c")
  case True
  have "isLower (toLower c)" "\<not> isUpper (toLower c)" "\<not> isLower c"
    using True isLower_toLower [OF True] not_both_cases [of "toLower c"] not_both_cases [of c]
    by auto
  with True show ?thesis
    by (simp add: lower_def toUpper_toLower)
next
  case False
  then show ?thesis by (simp add: lower_def)
qed

lemma canonicalize_lower: "canonicalize up (map lower s) = canonicalize up s"
proof (induction s arbitrary: up)
  case Nil
  show ?case by simp
next
  case (Cons c s)
  show ?case
    by (simp only: list.map canonicalize.simps Let_def lower_head Cons.IH)
qed

lemma lower_canonicalize: "map lower (canonicalize up s) = map lower s"
proof (induction s arbitrary: up)
  case Nil
  show ?case by simp
next
  case (Cons c s)
  have "lower (toUpper c) = lower c" if "isLower c"
    using that by (simp add: lower_def isUpper_toUpper toLower_toUpper not_both_cases [of c]
        not_both_cases [of "toUpper c"]) (auto dest: not_both_cases)
  moreover have "lower (toLower c) = lower c" if "isUpper c"
    using that isLower_toLower [OF that] by (auto simp: lower_def dest: not_both_cases)
  ultimately show ?case
    using Cons by (simp add: Let_def)
qed

lemma valid_lower: "validHeaderFieldByte (lower c) = validHeaderFieldByte c"
  using isLower_toLower [of c] by (auto simp: lower_def validHeaderFieldByte_def)

lemma list_all_valid_lower:
  "list_all validHeaderFieldByte (map lower s) = list_all validHeaderFieldByte s"
  by (induction s) (simp_all add: valid_lower)

lemma same_name_valid:
  "same_name a b \<Longrightarrow> list_all validHeaderFieldByte a = list_all validHeaderFieldByte b"
  unfolding same_name_def using list_all_valid_lower [of a] list_all_valid_lower [of b] by simp

lemma same_name_canonical:
  assumes "same_name a b"
  shows "CanonicalMIMEHeaderKey a = CanonicalMIMEHeaderKey b \<or> \<not> list_all validHeaderFieldByte b"
proof (cases "list_all validHeaderFieldByte b")
  case True
  with same_name_valid [OF assms] have va: "list_all validHeaderFieldByte a" by simp
  have "canonicalize True a = canonicalize True (map lower a)"
    by (simp add: canonicalize_lower)
  also have "\<dots> = canonicalize True (map lower b)"
    using assms by (simp add: same_name_def)
  also have "\<dots> = canonicalize True b"
    by (simp add: canonicalize_lower)
  finally show ?thesis
    using True va by (simp add: CanonicalMIMEHeaderKey_def)
next
  case False
  then show ?thesis by simp
qed

lemma valid_canonicalize:
  "list_all validHeaderFieldByte (canonicalize up s) = list_all validHeaderFieldByte s"
proof (induction s arbitrary: up)
  case Nil
  show ?case by simp
next
  case (Cons c s)
  have "validHeaderFieldByte (toUpper c)" "validHeaderFieldByte c" if "isLower c"
    using that isUpper_toUpper [OF that] by (simp_all add: validHeaderFieldByte_def)
  moreover have "validHeaderFieldByte (toLower c)" "validHeaderFieldByte c" if "isUpper c"
    using that isLower_toLower [OF that] by (simp_all add: validHeaderFieldByte_def)
  ultimately show ?case
    using Cons by (auto simp: Let_def)
qed

lemma canonical_same_name:
  assumes "CanonicalMIMEHeaderKey a = CanonicalMIMEHeaderKey b"
    and "list_all validHeaderFieldByte b"
  shows "same_name a b"
proof (cases "list_all validHeaderFieldByte a")
  case True
  with assms have "canonicalize True a = canonicalize True b"
    by (simp add: CanonicalMIMEHeaderKey_def)
  then have "map lower (canonicalize True a) = map lower (canonicalize True b)"
    by simp
  then show ?thesis
    by (simp add: lower_canonicalize same_name_def)
next
  case False
  with assms have "a = canonicalize True b"
    by (simp add: CanonicalMIMEHeaderKey_def)
  with assms(2) have "list_all validHeaderFieldByte a"
    by (simp add: valid_canonicalize)
  with False show ?thesis by simp
qed

lemma same_name_examples:
  "same_name ''User-Agent'' ''user-agent''"
  "\<not> same_name ''Accept'' ''user-agent''"
  "\<not> same_name ''user-agent'' ''Cookie''"
  "\<not> same_name ''Accept'' ''Cookie''"
  by code_simp+

subsection \<open>Headers and cookies of a request\<close>

text \<open>
  After the header loop a canonical key holds the value set last; after the cookie loop
  the header \<^verbatim>\<open>Cookie\<close> lists the cookies.
\<close>

lemma SetHeaders_Header:
  "req_Header (SetHeaders req kvs) K =
     (case map_of (rev (map (\<lambda>(k, v). (CanonicalMIMEHeaderKey k, v)) kvs)) K of
        Some v \<Rightarrow> Some [v]
      | None \<Rightarrow> req_Header req K)"
proof (induction kvs arbitrary: req)
  case Nil
  show ?case by simp
next
  case (Cons kv kvs)
  obtain k v where kv: "kv = (k, v)" by (cases kv)
  show ?case
    by (simp add: kv Cons.IH req_Header_Set_def Header_Set_def map_add_def split: option.splits)
qed

lemma map_of_canonical_Some:
  assumes "(k, v) \<in> set kvs"
  shows "\<exists>k' v'. (k', v') \<in> set kvs \<and> f k' = f k \<and>
           map_of (rev (map (\<lambda>(k, v). (f k, v)) kvs)) (f k) = Some v'"
proof -
  let ?xs = "rev (map (\<lambda>(k, v). (f k, v)) kvs)"
  have "f k \<in> fst ` set ?xs"
    using assms by (force simp: image_iff)
  then obtain v' where v': "map_of ?xs (f k) = Some v'"
    by (cases "map_of ?xs (f k)") (auto simp: map_of_eq_None_iff)
  from map_of_SomeD [OF v'] have "(f k, v') \<in> set ?xs" .
  then obtain k' where "(k', v') \<in> set kvs" "f k' = f k"
    by auto
  with v' show ?thesis by blast
qed

lemma map_of_canonical_None:
  assumes "\<forall>k v. (k, v) \<in> set kvs \<longrightarrow> f k \<noteq> K"
  shows "map_of (rev (map (\<lambda>(k, v). (f k, v)) kvs)) K = None"
  using assms by (force simp: map_of_eq_None_iff image_iff)

lemma Header_Get_Set_Cookie [simp]: "Header_Get (Header_Set h ''Cookie'' v) ''Cookie'' = v"
  by (simp add: Header_Get_def Header_Set_def)

lemma AddCookie_Some: "\<exists>r. AddCookie w req (Some ck) = Some r"
  by (simp add: AddCookie_def Let_def)

lemma AddCookies_no_nil:
  "None \<notin> set cs \<Longrightarrow> \<exists>r. AddCookies w req cs = Some r"
proof (induction cs arbitrary: req)
  case Nil
  show ?case by simp
next
  case (Cons c cs)
  then obtain ck where c: "c = Some ck"
    by (cases c) auto
  obtain r where r: "AddCookie w req (Some ck) = Some r"
    using AddCookie_Some by blast
  from Cons have "\<exists>r'. AddCookies w r cs = Some r'"
    by simp
  with c r show ?case by simp
qed

lemma AddCookies_not_nil: "AddCookies w req cs = Some r \<Longrightarrow> None \<notin> set cs"
  by (induction cs arbitrary: req) (auto simp: AddCookie_def split: option.splits)

lemma AddCookie_other_key:
  "AddCookie w req c = Some r \<Longrightarrow> K \<noteq> ''Cookie'' \<Longrightarrow> req_Header r K = req_Header req K"
  by (auto simp: AddCookie_def Let_def req_Header_Set_def Header_Set_def
        split: option.splits if_splits)

lemma AddCookies_other_key:
  "AddCookies w req cs = Some r \<Longrightarrow> K \<noteq> ''Cookie'' \<Longrightarrow> req_Header r K = req_Header req K"
proof (induction cs arbitrary: req)
  case Nil
  then show ?case by simp
next
  case (Cons c cs)
  then obtain r1 where 1: "AddCookie w req c = Some r1" and 2: "AddCookies w r1 cs = Some r"
    by (auto split: option.splits)
  from Cons.IH [OF 2 Cons.prems(2)] AddCookie_other_key [OF 1 Cons.prems(2)]
  show ?case by simp
qed

lemma cookie_pair_not_empty [simp]: "cookie_pair w c \<noteq> []"
  by (simp add: cookie_pair_def)

lemma join_Cons: "join sep (x # xs) = x @ concat (map (\<lambda>y. sep @ y) xs)"
  by (induction xs arbitrary: x) simp_all

lemma AddCookies_Cookie_from:
  assumes "AddCookies w req (map Some cs) = Some r"
    and "Header_Get (req_Header req) ''Cookie'' = cur" and "cur \<noteq> []"
  shows "req_Header r ''Cookie'' =
     (if cs = [] then req_Header req ''Cookie''
      else Some [cur @ concat (map (\<lambda>c. ''; '' @ cookie_pair w c) cs)])"
  using assms
proof (induction cs arbitrary: req cur)
  case Nil
  then show ?case by simp
next
  case (Cons c cs)
  let ?r1 = "req_Header_Set req ''Cookie'' (cur @ ''; '' @ cookie_pair w c)"
  have 1: "AddCookie w req (Some c) = Some ?r1"
    using Cons.prems(2,3) by (simp add: AddCookie_def Let_def cookie_pair_def)
  with Cons.prems(1) have 2: "AddCookies w ?r1 (map Some cs) = Some r"
    by simp
  have 3: "Header_Get (req_Header ?r1) ''Cookie'' = cur @ ''; '' @ cookie_pair w c"
    by (simp add: req_Header_Set_def)
  have 4: "cur @ ''; '' @ cookie_pair w c \<noteq> []"
    by simp
  from Cons.IH [OF 2 3 4] show ?case
    by (simp add: req_Header_Set_def Header_Set_def)
qed

lemma AddCookies_Cookie:
  assumes "AddCookies w req (map Some cs) = Some r"
    and "req_Header req ''Cookie'' = None"
  shows "req_Header r ''Cookie'' = (if cs = [] then None else Some [cookie_line w cs])"
proof (cases cs)
  case Nil
  with assms show ?thesis by simp
next
  case (Cons c cs')
  let ?r1 = "req_Header_Set req ''Cookie'' (cookie_pair w c)"
  have g: "Header_Get (req_Header req) ''Cookie'' = []"
    using assms(2) by (simp add: Header_Get_def)
  have 1: "AddCookie w req (Some c) = Some ?r1"
    using g by (simp add: AddCookie_def Let_def cookie_pair_def)
  with assms(1) Cons have 2: "AddCookies w ?r1 (map Some cs') = Some r"
    by simp
  have 3: "Header_Get (req_Header ?r1) ''Cookie'' = cookie_pair w c"
    by (simp add: req_Header_Set_def)
  from AddCookies_Cookie_from [OF 2 3] Cons show ?thesis
    by (simp add: cookie_line_def join_Cons req_Header_Set_def Header_Set_def comp_def)
qed

subsection \<open>The request prologue\<close>

text \<open>
  The prologue reads the user agent, the URL check and the cookie sanitizers of the
  world, nothing else; so it builds the same request again after a request has been sent
  or a line printed.
\<close>

lemma emit_fields [simp]:
  "files (emit w ev) = files w"
  "requests (emit w ev) = requests w"
  "trace (emit w ev) = trace w @ [ev]"
  "userAgent (emit w ev) = userAgent w"
  "server (emit w ev) = server w"
  "open_fails (emit w ev) = open_fails w"
  "fstat_fails (emit w ev) = fstat_fails w"
  "openrw_fails (emit w ev) = openrw_fails w"
  "create_fails (emit w ev) = create_fails w"
  "write_fails (emit w ev) = write_fails w"
  "url_Parse_fails (emit w ev) = url_Parse_fails w"
  "sanitizeCookieName (emit w ev) = sanitizeCookieName w"
  "sanitizeCookieValue (emit w ev) = sanitizeCookieValue w"
  by (simp_all add: emit_def)

lemma AddCookie_cong:
  "sanitizeCookieName w' = sanitizeCookieName w \<Longrightarrow>
   sanitizeCookieValue w' = sanitizeCookieValue w \<Longrightarrow>
   AddCookie w' req c = AddCookie w req c"
  by (simp add: AddCookie_def split: option.splits)

lemma AddCookies_cong:
  "sanitizeCookieName w' = sanitizeCookieName w \<Longrightarrow>
   sanitizeCookieValue w' = sanitizeCookieValue w \<Longrightarrow>
   AddCookies w' req cs = AddCookies w req cs"
  by (induction cs arbitrary: req) (simp_all add: AddCookie_cong [of w' w] split: option.splits)

lemma newRequest_cong:
  assumes "userAgent w' = userAgent w" and "url_Parse_fails w' = url_Parse_fails w"
    and "sanitizeCookieName w' = sanitizeCookieName w"
    and "sanitizeCookieValue w' = sanitizeCookieValue w"
  shows "newRequest w' u headers cookies = newRequest w u headers cookies"
  using assms AddCookies_cong [of w' w]
  by (simp add: newRequest_def http_NewRequest_def split: option.splits sum.splits)

lemma newRequest_emit [simp]: "newRequest (emit w ev) u headers cookies = newRequest w u headers cookies"
  by (rule newRequest_cong) simp_all

lemma newRequest_requests [simp]:
  "newRequest (w\<lparr>requests := r\<rparr>) u headers cookies = newRequest w u headers cookies"
  by (rule newRequest_cong) simp_all

lemma newRequest_Header:
  assumes "newRequest w u headers cookies = Return (Inr req)"
  shows "\<exists>cs. cookies = Some (map Some cs) \<and>
     (\<forall>K. req_Header req K =
       (case map_of (rev (map (\<lambda>(k, v). (CanonicalMIMEHeaderKey k, v)) headers)) K of
          Some v \<Rightarrow> Some [v]
        | None \<Rightarrow>
            if K = ''Cookie'' then (if cs = [] then None else Some [cookie_line w cs])
            else if K = ''User-Agent'' then Some [userAgent w]
            else None))"
proof -
  from assms obtain url cs0 req0 r2 where
    u: "u = Some url" and c: "cookies = Some cs0"
    and r0: "http_NewRequest w ''GET'' url = Inr req0"
    and r2: "AddCookies w (req_Header_Set req0 ''User-Agent'' (userAgent w)) cs0 = Some r2"
    and r: "req = SetHeaders r2 headers"
    by (auto simp: newRequest_def Let_def split: option.splits sum.splits)
  let ?r1 = "req_Header_Set req0 ''User-Agent'' (userAgent w)"
  from AddCookies_not_nil [OF r2] have "\<forall>x \<in> set cs0. \<exists>y. x = Some y"
    by (metis not_None_eq)
  then have "cs0 = map Some (map the cs0)"
    by (induction cs0) auto
  then obtain cs where cs: "cs0 = map Some cs" ..
  have h0: "req_Header req0 = Map.empty"
    using r0 by (auto simp: http_NewRequest_def split: option.splits)
  have h1: "req_Header ?r1 = [''User-Agent'' \<mapsto> [userAgent w]]"
    by (simp add: req_Header_Set_def Header_Set_def h0)
  have ck: "req_Header r2 ''Cookie'' = (if cs = [] then None else Some [cookie_line w cs])"
    using AddCookies_Cookie [of w ?r1 cs r2] r2 cs h1 by simp
  have other: "req_Header r2 K = req_Header ?r1 K" if "K \<noteq> ''Cookie''" for K
    using AddCookies_other_key [OF r2 that] .
  have "req_Header req K =
       (case map_of (rev (map (\<lambda>(k, v). (CanonicalMIMEHeaderKey k, v)) headers)) K of
          Some v \<Rightarrow> Some [v]
        | None \<Rightarrow>
            if K = ''Cookie'' then (if cs = [] then None else Some [cookie_line w cs])
            else if K = ''User-Agent'' then Some [userAgent w]
            else None)" for K
  proof (cases "K = ''Cookie''")
    case True
    with ck show ?thesis
      by (simp add: r SetHeaders_Header split: option.splits)
  next
    case False
    show ?thesis
    proof (cases "K = ''User-Agent''")
      case True
      have "req_Header r2 ''User-Agent'' = Some [userAgent w]"
        using other [of "''User-Agent''"] by (simp add: h1)
      then show ?thesis
        unfolding True by (simp add: r SetHeaders_Header split: option.splits)
    next
      case no: False
      have "req_Header r2 K = None"
        using other [OF False] no by (simp add: h1)
      with False no show ?thesis
        by (simp add: r SetHeaders_Header split: option.splits)
    qed
  qed
  with c cs show ?thesis by blast
qed

subsection \<open>The unconditional download\<close>

text \<open>
  What \<open>writeToFileFromURL\<close> does once its request is answered: it stops at a failure
  to open or create the destination, and otherwise copies.
\<close>

lemma client_Do_Inr:
  "server w (length (requests w)) req = Inr resp \<Longrightarrow>
   client_Do w req = (Inr resp, w\<lparr>requests := requests w @ [req]\<rparr>)"
  by (simp add: client_Do_def)

lemma client_Do_Inl:
  "server w (length (requests w)) req = Inl e \<Longrightarrow>
   client_Do w req = (Inl (NetError e), w\<lparr>requests := requests w @ [req]\<rparr>)"
  by (simp add: client_Do_def)

lemma io_Copy_effect:
  "\<exists>n err. io_Copy w path resp =
       ((int n, err),
        w\<lparr>files := (files w)(path \<mapsto> take n (Body resp) @
           drop n (case files w path of None \<Rightarrow> [] | Some bytes \<Rightarrow> bytes))\<rparr>) \<and>
     n \<le> length (Body resp) \<and>
     (err = None \<longrightarrow> n = length (Body resp) \<and> Body_err resp = None) \<and>
     (write_fails w path = None \<longrightarrow>
        n = length (Body resp) \<and> err = map_option NetError (Body_err resp))"
  by (auto simp: io_Copy_def Let_def split: option.splits prod.splits)

lemma io_Copy_frame:
  assumes "files w' = files w" and "write_fails w' path = write_fails w path"
    and "Body r' = Body r" and "Body_err r' = Body_err r"
  shows "fst (io_Copy w' path r') = fst (io_Copy w path r)"
    and "files (snd (io_Copy w' path r')) = files (snd (io_Copy w path r))"
  using assms by (simp_all add: io_Copy_def Let_def case_prod_beta split: option.splits)

lemma io_Copy_requests [simp]: "requests (snd (io_Copy w path r)) = requests w"
  by (simp add: io_Copy_def Let_def case_prod_beta)

lemma writeToFileFromURL_run:
  assumes req: "newRequest w u headers cookies = Return (Inr req)"
    and srv: "server w (length (requests w)) req = Inr resp"
  shows "\<exists>w5.
     files w5 = (if files w fileloc = None then (files w)(fileloc \<mapsto> []) else files w) \<and>
     requests w5 = requests w @ [req] \<and>
     write_fails w5 = write_fails w \<and>
     (case (if files w fileloc = None then create_fails w fileloc else openrw_fails w fileloc) of
        Some e \<Rightarrow>
          fst (writeToFileFromURL w fileloc u headers cookies) = Return (0, Some (PathError e)) \<and>
          files (snd (writeToFileFromURL w fileloc u headers cookies)) = files w \<and>
          requests (snd (writeToFileFromURL w fileloc u headers cookies)) = requests w @ [req]
      | None \<Rightarrow>
          writeToFileFromURL w fileloc u headers cookies =
            (case io_Copy w5 fileloc resp of (r, w') \<Rightarrow> (Return r, w')))"
proof -
  define w4 where "w4 =
     (let w3 = emit (emit (w\<lparr>requests := requests w @ [req]\<rparr>)
                 (Debug_Status (StatusCode resp) (Status resp)))
                 (Debug_ContentType (Header_Get (resp_Header resp) ''Content-Type''))
      in if snd (ParseInt (Header_Get (resp_Header resp) ''Content-Length'')) \<noteq> None
         then emit w3 (Debugf_NoContentLength (req_URL req)) else w3)"
  define clen where "clen = fst (ParseInt (Header_Get (resp_Header resp) ''Content-Length''))"
  have w4: "files w4 = files w" "requests w4 = requests w @ [req]"
    "write_fails w4 = write_fails w" "openrw_fails w4 = openrw_fails w"
    "create_fails w4 = create_fails w"
    by (simp_all add: w4_def Let_def)
  show ?thesis
  proof (cases "files w fileloc")
    case None
    define w5 where "w5 = emit ((emit w4 (MkdirAll_Dir fileloc))\<lparr>files := (files w4)(fileloc \<mapsto> [])\<rparr>)
        (Printf_Downloading fileloc (uint64 clen))"
    have w5: "files w5 = (files w)(fileloc \<mapsto> [])" "requests w5 = requests w @ [req]"
      "write_fails w5 = write_fails w"
      by (simp_all add: w5_def w4 emit_def)
    show ?thesis
    proof (cases "create_fails w fileloc")
      case ok: None
      have "writeToFileFromURL w fileloc u headers cookies =
          (case io_Copy w5 fileloc resp of (r, w') \<Rightarrow> (Return r, w'))"
        using req srv None ok
        by (simp add: writeToFileFromURL_def client_Do_Inr [OF srv] Let_def FileExists_def
              os_Create_def w4_def w5_def clen_def emit_def split: prod.splits)
      with None ok w5 show ?thesis by auto
    next
      case (Some e)
      have "writeToFileFromURL w fileloc u headers cookies =
          (Return (0, Some (PathError e)), emit w4 (MkdirAll_Dir fileloc))"
        using req srv None Some
        by (simp add: writeToFileFromURL_def client_Do_Inr [OF srv] Let_def FileExists_def
              os_Create_def w4_def clen_def emit_def split: prod.splits)
      with None Some w5 w4 show ?thesis by auto
    qed
  next
    case (Some old)
    define w5 where "w5 = emit w4 (Printf_Downloading fileloc (uint64 clen))"
    have w5: "files w5 = files w" "requests w5 = requests w @ [req]"
      "write_fails w5 = write_fails w"
      by (simp_all add: w5_def w4)
    show ?thesis
    proof (cases "openrw_fails w fileloc")
      case None
      have "writeToFileFromURL w fileloc u headers cookies =
          (case io_Copy w5 fileloc resp of (r, w') \<Rightarrow> (Return r, w'))"
        using req srv Some None
        by (simp add: writeToFileFromURL_def client_Do_Inr [OF srv] Let_def FileExists_def
              os_OpenFile_RDWR_def w4_def w5_def clen_def emit_def split: prod.splits)
      with None Some w5 show ?thesis by auto
    next
      case (Some e)
      have "writeToFileFromURL w fileloc u headers cookies = (Return (0, Some (PathError e)), w4)"
        using req srv \<open>files w fileloc = Some old\<close> Some
        by (simp add: writeToFileFromURL_def client_Do_Inr [OF srv] Let_def FileExists_def
              os_OpenFile_RDWR_def w4_def clen_def emit_def split: prod.splits)
      with \<open>files w fileloc = Some old\<close> Some w5 w4 show ?thesis by auto
    qed
  qed
qed

lemma writeToFileFromURL_effect:
  assumes req: "newRequest w u headers cookies = Return (Inr req)"
    and srv: "server w (length (requests w)) req = Inr resp"
    and rw: "files w fileloc \<noteq> None \<Longrightarrow> openrw_fails w fileloc = None"
    and cr: "files w fileloc = None \<Longrightarrow> create_fails w fileloc = None"
  shows "\<exists>n err w'. writeToFileFromURL w fileloc u headers cookies = (Return (int n, err), w') \<and>
     files w' = (files w)(fileloc \<mapsto> take n (Body resp) @
           drop n (case files w fileloc of None \<Rightarrow> [] | Some bytes \<Rightarrow> bytes)) \<and>
     requests w' = requests w @ [req] \<and>
     n \<le> length (Body resp) \<and>
     (err = None \<longrightarrow> n = length (Body resp) \<and> Body_err resp = None) \<and>
     (write_fails w fileloc = None \<longrightarrow>
        n = length (Body resp) \<and> err = map_option NetError (Body_err resp))"
proof -
  have gate: "(if files w fileloc = None then create_fails w fileloc else openrw_fails w fileloc)
      = None"
    using rw cr by simp
  from writeToFileFromURL_run [OF req srv, of fileloc, unfolded gate] obtain w5 where
    f5: "files w5 = (if files w fileloc = None then (files w)(fileloc \<mapsto> []) else files w)"
    and r5: "requests w5 = requests w @ [req]"
    and wf5: "write_fails w5 = write_fails w"
    and run: "writeToFileFromURL w fileloc u headers cookies =
            (case io_Copy w5 fileloc resp of (r, w') \<Rightarrow> (Return r, w'))"
    by auto
  from io_Copy_effect [of w5 fileloc resp] obtain n err where
    cp: "io_Copy w5 fileloc resp =
       ((int n, err),
        w5\<lparr>files := (files w5)(fileloc \<mapsto> take n (Body resp) @
           drop n (case files w5 fileloc of None \<Rightarrow> [] | Some bytes \<Rightarrow> bytes))\<rparr>)"
    and n: "n \<le> length (Body resp)"
    and e1: "err = None \<longrightarrow> n = length (Body resp) \<and> Body_err resp = None"
    and e2: "write_fails w5 fileloc = None \<longrightarrow>
        n = length (Body resp) \<and> err = map_option NetError (Body_err resp)"
    by (elim exE conjE) (erule that; assumption)
  show ?thesis
    using n e1 e2
    by (auto simp: run cp f5 r5 wf5)
qed

lemma writeToFileFromURL_download:
  assumes req: "newRequest w u headers cookies = Return (Inr req)"
    and srv: "server w (length (requests w)) req = Inr resp"
    and gate: "(if files w fileloc = None then create_fails w fileloc
                else openrw_fails w fileloc) = None"
  shows "\<exists>n err w' rest.
     writeToFileFromURL w fileloc u headers cookies = (Return (int n, err), w') \<and>
     requests w' = requests w @ [req] \<and>
     files w' fileloc = Some (take n (Body resp) @ rest) \<and>
     (length (case files w fileloc of None \<Rightarrow> [] | Some bytes \<Rightarrow> bytes) \<le> n \<longrightarrow> rest = []) \<and>
     (\<forall>p. p \<noteq> fileloc \<longrightarrow> files w' p = files w p) \<and>
     n \<le> length (Body resp) \<and>
     (err = None \<longrightarrow> n = length (Body resp)) \<and>
     (write_fails w fileloc = None \<and> Body_err resp = None \<longrightarrow>
        n = length (Body resp) \<and> err = None)"
proof -
  let ?old = "case files w fileloc of None \<Rightarrow> [] | Some bytes \<Rightarrow> bytes"
  have "\<exists>n err w'. writeToFileFromURL w fileloc u headers cookies = (Return (int n, err), w') \<and>
     files w' = (files w)(fileloc \<mapsto> take n (Body resp) @ drop n ?old) \<and>
     requests w' = requests w @ [req] \<and>
     n \<le> length (Body resp) \<and>
     (err = None \<longrightarrow> n = length (Body resp) \<and> Body_err resp = None) \<and>
     (write_fails w fileloc = None \<longrightarrow>
        n = length (Body resp) \<and> err = map_option NetError (Body_err resp))"
    by (rule writeToFileFromURL_effect [OF req srv]) (insert gate, simp_all split: if_splits)
  then obtain n err w' where
    run: "writeToFileFromURL w fileloc u headers cookies = (Return (int n, err), w')"
    and f: "files w' = (files w)(fileloc \<mapsto> take n (Body resp) @ drop n ?old)"
    and r: "requests w' = requests w @ [req]"
    and n: "n \<le> length (Body resp)"
    and e1: "err = None \<longrightarrow> n = length (Body resp) \<and> Body_err resp = None"
    and e2: "write_fails w fileloc = None \<longrightarrow>
        n = length (Body resp) \<and> err = map_option NetError (Body_err resp)"
    by (elim exE conjE) (erule that; assumption)
  have "writeToFileFromURL w fileloc u headers cookies = (Return (int n, err), w') \<and>
     requests w' = requests w @ [req] \<and>
     files w' fileloc = Some (take n (Body resp) @ drop n ?old) \<and>
     (length ?old \<le> n \<longrightarrow> drop n ?old = []) \<and>
     (\<forall>p. p \<noteq> fileloc \<longrightarrow> files w' p = files w p) \<and>
     n \<le> length (Body resp) \<and>
     (err = None \<longrightarrow> n = length (Body resp)) \<and>
     (write_fails w fileloc = None \<and> Body_err resp = None \<longrightarrow>
        n = length (Body resp) \<and> err = None)"
    using run f r n e1 e2 by simp
  then show ?thesis by blast
qed

lemma writeToFileFromURL_requests:
  assumes req: "newRequest w u headers cookies = Return (Inr req)"
  shows "requests (snd (writeToFileFromURL w fileloc u headers cookies)) = requests w @ [req]"
proof (cases "server w (length (requests w)) req")
  case (Inl m)
  with req show ?thesis by (simp add: writeToFileFromURL_def client_Do_Inl)
next
  case (Inr resp)
  from writeToFileFromURL_run [OF req Inr, of fileloc] obtain w5 where
    w5: "requests w5 = requests w @ [req]"
    and run: "case (if files w fileloc = None then create_fails w fileloc else openrw_fails w fileloc) of
        Some e \<Rightarrow>
          fst (writeToFileFromURL w fileloc u headers cookies) = Return (0, Some (PathError e)) \<and>
          files (snd (writeToFileFromURL w fileloc u headers cookies)) = files w \<and>
          requests (snd (writeToFileFromURL w fileloc u headers cookies)) = requests w @ [req]
      | None \<Rightarrow>
          writeToFileFromURL w fileloc u headers cookies =
            (case io_Copy w5 fileloc resp of (r, w') \<Rightarrow> (Return r, w'))"
    by (elim exE conjE) (erule that; assumption)
  show ?thesis
  proof (cases "if files w fileloc = None then create_fails w fileloc else openrw_fails w fileloc")
    case None
    with run have "writeToFileFromURL w fileloc u headers cookies =
            (case io_Copy w5 fileloc resp of (r, w') \<Rightarrow> (Return r, w'))"
      by simp
    then show ?thesis
      by (simp add: case_prod_beta w5)
  next
    case (Some e)
    with run show ?thesis by simp
  qed
qed

lemma DownloadFile_requests:
  assumes req: "newRequest w u headers cookies = Return (Inr req)"
  shows "requests (snd (DownloadFile w fileloc u headers cookies)) = requests w @ [req] \<or>
         requests (snd (DownloadFile w fileloc u headers cookies)) = requests w @ [req, req]"
proof -
  let ?w1 = "w\<lparr>requests := requests w @ [req]\<rparr>"
  have 0: "requests (snd (writeToFileFromURL w fileloc u headers cookies)) = requests w @ [req]"
    by (rule writeToFileFromURL_requests [OF req])
  have "newRequest ?w1 u headers cookies = Return (Inr req)"
    using req by simp
  from writeToFileFromURL_requests [OF this, of fileloc]
  have 1: "requests (snd (writeToFileFromURL ?w1 fileloc u headers cookies)) = requests w @ [req, req]"
    by simp
  show ?thesis
    using req 0 1
    by (auto simp: DownloadFile_def client_Do_def emit_def
          split: sum.splits prod.splits option.splits)
qed

subsection \<open>Facts about the example worlds\<close>

lemma newRequest_plain:
  "url_Parse_fails w ''http://example.com/a.bin'' = None \<Longrightarrow> userAgent w = ''dl v0.0.1'' \<Longrightarrow>
   newRequest w (Some ''http://example.com/a.bin'') [] (Some []) = Return (Inr plain_request)"
  by (simp add: newRequest_def http_NewRequest_def req_Header_Set_def Header_Set_def plain_request_def)

lemma Header_Get_reply [simp]: "Header_Get (resp_Header (reply code clen bytes)) ''Content-Length'' = clen"
  by (simp add: Header_Get_def reply_def)

lemma reply_fields [simp]:
  "Body (reply code clen bytes) = bytes"
  "Body_err (reply code clen bytes) = None"
  "StatusCode (reply code clen bytes) = code"
  by (simp_all add: reply_def)

lemma reply_without_length_fields [simp]:
  "Header_Get (resp_Header (reply_without_length bytes)) key = []"
  "Body (reply_without_length bytes) = bytes"
  "Body_err (reply_without_length bytes) = None"
  by (simp_all add: reply_without_length_def Header_Get_def)

lemmas run_defs =
  DownloadFile_def writeToFileFromURL_def GetBodyFromURL_def GetRespFromURL_def
  client_Do_def FileExists_def os_Open_def File_Stat_Size_def os_OpenFile_RDWR_def
  os_Create_def io_Copy_def ioutil_ReadAll_def Let_def

subsection \<open>C1: equal sizes skip the download\<close>

text \<open>
  Claim C1. When the destination exists and the size read from disk equals the
  \<^verbatim>\<open>Content-Length\<close> of the preliminary response, \<open>DownloadFile\<close> returns the count 0
  with no error and leaves every file as it was. Reading the size means that
  \<^verbatim>\<open>os.Open\<close> and \<^verbatim>\<open>File.Stat\<close> succeed (their failure is claim C6). The file's
  bytes and the response's body are arbitrary: only the two lengths are compared. Besides
  the one request, the only effect is the line \<^verbatim>\<open>Skipping ...\<close> on standard output.
\<close>

theorem C1_skip_on_equal_size:
  assumes "newRequest w u headers cookies = Return (Inr req)"
    and "files w fileloc = Some bytes"
    and "server w (length (requests w)) req = Inr head"
    and "ParseInt (Header_Get (resp_Header head) ''Content-Length'') = (n, None)"
    and "open_fails w fileloc = None"
    and "fstat_fails w fileloc = None"
    and "int (length bytes) = n"
  shows "DownloadFile w fileloc u headers cookies =
           (Return (0, None),
            emit (w\<lparr>requests := requests w @ [req]\<rparr>) (Printf_Skipping fileloc (uint64 n)))
         \<and> files (snd (DownloadFile w fileloc u headers cookies)) = files w"
proof -
  have ne: "Header_Get (resp_Header head) ''Content-Length'' \<noteq> []"
    using assms(4) by auto
  show ?thesis
    using assms ne
    by (simp add: DownloadFile_def FileExists_def client_Do_Inr os_Open_def File_Stat_Size_def)
qed

text \<open>
  The hypotheses of C1 hold in \<open>world_same_size\<close>: the file holds \<^verbatim>\<open>hello\<close>, the server
  announces 5 bytes and would send \<^verbatim>\<open>world\<close>.
\<close>

theorem C1_witness:
  "files world_same_size ''a.bin'' = Some ''hello'' \<and>
   server world_same_size 0 plain_request = Inr (reply 200 ''5'' ''world'') \<and>
   fst (DownloadFile world_same_size ''a.bin'' (Some ''http://example.com/a.bin'') [] (Some []))
     = Return (0, None) \<and>
   files (snd (DownloadFile world_same_size ''a.bin'' (Some ''http://example.com/a.bin'') [] (Some [])))
     = files world_same_size"
proof -
  have 1: "newRequest world_same_size (Some ''http://example.com/a.bin'') [] (Some []) =
      Return (Inr plain_request)"
    by (rule newRequest_plain) (simp_all add: world_same_size_def world0_def)
  have 2: "files world_same_size ''a.bin'' = Some ''hello''"
    by (simp add: world_same_size_def world0_def)
  have 3: "server world_same_size (length (requests world_same_size)) plain_request =
      Inr (reply 200 ''5'' ''world'')"
    by (simp add: world_same_size_def world0_def)
  have 4: "ParseInt (Header_Get (resp_Header (reply 200 ''5'' ''world'')) ''Content-Length'') = (5, None)"
    by simp
  have 5: "open_fails world_same_size ''a.bin'' = None" "fstat_fails world_same_size ''a.bin'' = None"
    by (simp_all add: world_same_size_def world0_def)
  have 6: "int (length ''hello'') = 5" by simp
  from C1_skip_on_equal_size [OF 1 2 3 4 5 6] 2 3
  show ?thesis by (simp add: world_same_size_def world0_def)
qed

subsection \<open>C2: an absent destination is downloaded at once\<close>

text \<open>
  Claim C2. When no file exists at the destination, \<open>DownloadFile\<close> is the unconditional
  download \<open>writeToFileFromURL\<close>, run in the same world: no preliminary request is made,
  the one request of the call is the download itself. When that request is answered and
  the file can be created, the call returns the number \<open>n\<close> of body bytes written, the
  destination holds exactly those \<open>n\<close> bytes, and a result without error means that the
  whole body was written; without a write failure and a read error the result is the
  length of the body and no error.
\<close>


theorem C2_absent_destination_is_downloaded:
  assumes absent: "\<not> FileExists w fileloc"
    and req: "newRequest w u headers cookies = Return (Inr req)"
    and srv: "server w (length (requests w)) req = Inr resp"
    and cr: "create_fails w fileloc = None"
  shows "DownloadFile w fileloc u headers cookies = writeToFileFromURL w fileloc u headers cookies \<and>
    (\<exists>n err w'.
       DownloadFile w fileloc u headers cookies = (Return (int n, err), w') \<and>
       requests w' = requests w @ [req] \<and>
       files w' = (files w)(fileloc \<mapsto> take n (Body resp)) \<and>
       n \<le> length (Body resp) \<and>
       (err = None \<longrightarrow> n = length (Body resp)) \<and>
       (write_fails w fileloc = None \<and> Body_err resp = None \<longrightarrow>
          n = length (Body resp) \<and> err = None))"
proof -
  have eq: "DownloadFile w fileloc u headers cookies = writeToFileFromURL w fileloc u headers cookies"
    using absent req by (simp add: DownloadFile_def)
  have none: "files w fileloc = None"
    using absent by (simp add: FileExists_def)
  from writeToFileFromURL_effect [OF req srv, of fileloc] none cr
  have "\<exists>n err w'.
       writeToFileFromURL w fileloc u headers cookies = (Return (int n, err), w') \<and>
       requests w' = requests w @ [req] \<and>
       files w' = (files w)(fileloc \<mapsto> take n (Body resp)) \<and>
       n \<le> length (Body resp) \<and>
       (err = None \<longrightarrow> n = length (Body resp)) \<and>
       (write_fails w fileloc = None \<and> Body_err resp = None \<longrightarrow>
          n = length (Body resp) \<and> err = None)"
    apply simp
    apply (elim exE conjE)
    subgoal for n err w'
      by (rule exI [of _ n], rule exI [of _ err], rule exI [of _ w']) simp
    done
  with eq show ?thesis by simp
qed

text \<open>
  In \<open>world_absent\<close> there is no file and the server sends 1024 bytes: the call returns
  1024 and the file holds the 1024 bytes, after a single request.
\<close>

theorem C2_witness:
  "\<not> FileExists world_absent ''a.bin'' \<and>
   fst (DownloadFile world_absent ''a.bin'' (Some ''http://example.com/a.bin'') [] (Some []))
     = Return (1024, None) \<and>
   files (snd (DownloadFile world_absent ''a.bin'' (Some ''http://example.com/a.bin'') [] (Some [])))
     ''a.bin'' = Some (replicate 1024 (CHR ''x'')) \<and>
   requests (snd (DownloadFile world_absent ''a.bin'' (Some ''http://example.com/a.bin'') [] (Some [])))
     = [plain_request]"
proof -
  let ?r = "DownloadFile world_absent ''a.bin'' (Some ''http://example.com/a.bin'') [] (Some [])"
  let ?resp = "reply 200 ''1024'' (replicate 1024 (CHR ''x''))"
  have 0: "\<not> FileExists world_absent ''a.bin''"
    by (simp add: FileExists_def world_absent_def world0_def)
  have 1: "newRequest world_absent (Some ''http://example.com/a.bin'') [] (Some []) =
      Return (Inr plain_request)"
    by (rule newRequest_plain) (simp_all add: world_absent_def world0_def)
  have 2: "server world_absent (length (requests world_absent)) plain_request = Inr ?resp"
    by (simp add: world_absent_def world0_def)
  have 3: "create_fails world_absent ''a.bin'' = None"
    by (simp add: world_absent_def world0_def)
  have 4: "write_fails world_absent ''a.bin'' = None" "requests world_absent = []"
    by (simp_all add: world_absent_def world0_def)
  from conjunct2 [OF C2_absent_destination_is_downloaded [OF 0 1 2 3]]
  obtain n err w' where r: "?r = (Return (int n, err), w') \<and>
       requests w' = requests world_absent @ [plain_request] \<and>
       files w' = (files world_absent)(''a.bin'' \<mapsto> take n (Body ?resp)) \<and>
       n \<le> length (Body ?resp) \<and>
       (err = None \<longrightarrow> n = length (Body ?resp)) \<and>
       (write_fails world_absent ''a.bin'' = None \<and> Body_err ?resp = None \<longrightarrow>
          n = length (Body ?resp) \<and> err = None)"
    by (elim exE) (rule that)
  with 0 4 show ?thesis by simp
qed

subsection \<open>C3: a shorter body over a longer file\<close>

text \<open>
  Claim C3 says that after an existing file of a different size has been overwritten, its
  size is the number of bytes received, also when the new body is shorter. The existing
  file is opened with \<^verbatim>\<open>os.O_RDWR\<close> alone, without \<^verbatim>\<open>os.O_TRUNC\<close>, so the bytes
  beyond the body stay. In \<open>world_shorter\<close> the file holds the 5 bytes \<^verbatim>\<open>hello\<close>, the
  server announces 2 bytes and sends \<^verbatim>\<open>hi\<close>: the call returns 2 with no error, and the
  file then holds the 5 bytes \<^verbatim>\<open>hillo\<close>.
\<close>


theorem C3_failing_input:
  "fst (DownloadFile world_shorter ''a.bin'' (Some ''http://example.com/a.bin'') [] (Some []))
     = Return (2, None) \<and>
   files (snd (DownloadFile world_shorter ''a.bin'' (Some ''http://example.com/a.bin'') [] (Some [])))
     ''a.bin'' = Some ''hillo''"
proof -
  have 1: "newRequest w (Some ''http://example.com/a.bin'') [] (Some []) =
      Return (Inr plain_request)"
    if "userAgent w = userAgent world_shorter" "url_Parse_fails w = url_Parse_fails world_shorter" for w
    by (rule newRequest_plain) (simp_all add: that world_shorter_def world0_def)
  show ?thesis
    by (simp add: DownloadFile_def writeToFileFromURL_def 1 client_Do_def FileExists_def
         os_Open_def File_Stat_Size_def os_OpenFile_RDWR_def io_Copy_def Let_def
         world_shorter_def world0_def)
qed

subsection \<open>C4: what the preliminary request decides\<close>

text \<open>
  Claim C4 says that, the destination existing, \<open>DownloadFile\<close> falls over to an
  unconditional download in three cases: the preliminary request errors, the
  \<^verbatim>\<open>Content-Length\<close> header is absent, or it does not parse as a non-negative integer.
  The first case fails on the code: lines 118--122 return the error of \<^verbatim>\<open>client.Do\<close>.
  In \<open>world_prelim_fails\<close> the destination exists, the first request fails with
  \<^verbatim>\<open>connection reset\<close> and every later request would be answered with 5 bytes:
  \<open>DownloadFile\<close> returns the count 0 with that error after the one request, where the
  unconditional download, started then, returns 5 and no error.
\<close>


theorem C4_counterexample:
  "FileExists world_prelim_fails ''a.bin'' \<and>
   server world_prelim_fails 0 plain_request = Inl ''connection reset'' \<and>
   DownloadFile world_prelim_fails ''a.bin'' (Some ''http://example.com/a.bin'') [] (Some []) =
     (Return (0, Some (NetError ''connection reset'')),
      world_prelim_fails\<lparr>requests := [plain_request]\<rparr>) \<and>
   fst (writeToFileFromURL (world_prelim_fails\<lparr>requests := [plain_request]\<rparr>) ''a.bin''
          (Some ''http://example.com/a.bin'') [] (Some [])) = Return (5, None) \<and>
   DownloadFile world_prelim_fails ''a.bin'' (Some ''http://example.com/a.bin'') [] (Some []) \<noteq>
     writeToFileFromURL (world_prelim_fails\<lparr>requests := [plain_request]\<rparr>) ''a.bin''
          (Some ''http://example.com/a.bin'') [] (Some [])"
proof -
  have 1: "newRequest w (Some ''http://example.com/a.bin'') [] (Some []) =
      Return (Inr plain_request)"
    if "userAgent w = userAgent world0" "url_Parse_fails w = url_Parse_fails world0" for w
    by (rule newRequest_plain) (simp_all add: that world0_def)
  have a: "FileExists world_prelim_fails ''a.bin''"
    by (simp add: FileExists_def world_prelim_fails_def)
  have b: "server world_prelim_fails 0 plain_request = Inl ''connection reset''"
    by (simp add: world_prelim_fails_def)
  have c: "DownloadFile world_prelim_fails ''a.bin'' (Some ''http://example.com/a.bin'') [] (Some []) =
     (Return (0, Some (NetError ''connection reset'')),
      world_prelim_fails\<lparr>requests := [plain_request]\<rparr>)"
    by (simp add: run_defs 1 world_prelim_fails_def world0_def)
  have d: "fst (writeToFileFromURL (world_prelim_fails\<lparr>requests := [plain_request]\<rparr>) ''a.bin''
          (Some ''http://example.com/a.bin'') [] (Some [])) = Return (5, None)"
    by (simp add: run_defs 1 world_prelim_fails_def world0_def)
  have e: "DownloadFile world_prelim_fails ''a.bin'' (Some ''http://example.com/a.bin'') [] (Some []) \<noteq>
     writeToFileFromURL (world_prelim_fails\<lparr>requests := [plain_request]\<rparr>) ''a.bin''
          (Some ''http://example.com/a.bin'') [] (Some [])"
  proof
    assume "DownloadFile world_prelim_fails ''a.bin'' (Some ''http://example.com/a.bin'') [] (Some []) =
     writeToFileFromURL (world_prelim_fails\<lparr>requests := [plain_request]\<rparr>) ''a.bin''
          (Some ''http://example.com/a.bin'') [] (Some [])"
    then have "fst (DownloadFile world_prelim_fails ''a.bin'' (Some ''http://example.com/a.bin'') []
          (Some [])) = Return (5, None)"
      using d by simp
    with c show False by simp
  qed
  from a b c d e show ?thesis by simp
qed

text \<open>
  Claim C4, amended. With the destination present:
  \<^item> when the preliminary request errors, \<open>DownloadFile\<close> returns the count 0 with that
    error; it makes no second request and writes nothing;
  \<^item> when the preliminary response has no (or an empty) \<^verbatim>\<open>Content-Length\<close>, or one that
    \<^verbatim>\<open>strconv.ParseInt\<close> rejects, \<open>DownloadFile\<close> is the unconditional download
    \<open>writeToFileFromURL\<close>, started after the preliminary request;
  \<^item> the same holds when the header parses as a negative integer and the local file can
    be opened and stat-ed (a size is never negative);
  \<^item> in these cases, when the second request is answered and the destination opens for
    writing, \<open>DownloadFile\<close> has made two requests, has written \<open>n\<close> bytes of the body
    to the destination and returns \<open>n\<close>: the destination starts with those bytes, and is
    exactly those bytes when it held no more than \<open>n\<close> before; no other file changes;
    a result without error means the whole body; and when neither a write fails nor the
    body stream ends in an error, the whole body is written and its length is returned
    with no error.
\<close>


theorem C4_preliminary_request_outcomes:
  assumes req: "newRequest w u headers cookies = Return (Inr req)"
    and old: "files w fileloc = Some old"
  shows
   "(\<forall>e. server w (length (requests w)) req = Inl e \<longrightarrow>
        DownloadFile w fileloc u headers cookies =
          (Return (0, Some (NetError e)), w\<lparr>requests := requests w @ [req]\<rparr>)) \<and>
    (\<forall>head. server w (length (requests w)) req = Inr head \<and>
        (Header_Get (resp_Header head) ''Content-Length'' = [] \<or>
         snd (ParseInt (Header_Get (resp_Header head) ''Content-Length'')) \<noteq> None) \<longrightarrow>
        DownloadFile w fileloc u headers cookies =
          writeToFileFromURL (w\<lparr>requests := requests w @ [req]\<rparr>) fileloc u headers cookies) \<and>
    (\<forall>head n. server w (length (requests w)) req = Inr head \<and>
        ParseInt (Header_Get (resp_Header head) ''Content-Length'') = (n, None) \<and> n < 0 \<and>
        open_fails w fileloc = None \<and> fstat_fails w fileloc = None \<longrightarrow>
        DownloadFile w fileloc u headers cookies =
          writeToFileFromURL (w\<lparr>requests := requests w @ [req]\<rparr>) fileloc u headers cookies) \<and>
    (\<forall>head resp. server w (length (requests w)) req = Inr head \<and>
        (Header_Get (resp_Header head) ''Content-Length'' = [] \<or>
         snd (ParseInt (Header_Get (resp_Header head) ''Content-Length'')) \<noteq> None \<or>
         (fst (ParseInt (Header_Get (resp_Header head) ''Content-Length'')) < 0 \<and>
          open_fails w fileloc = None \<and> fstat_fails w fileloc = None)) \<and>
        server w (Suc (length (requests w))) req = Inr resp \<and>
        openrw_fails w fileloc = None \<longrightarrow>
        (\<exists>n err w' rest.
           DownloadFile w fileloc u headers cookies = (Return (int n, err), w') \<and>
           requests w' = requests w @ [req, req] \<and>
           files w' fileloc = Some (take n (Body resp) @ rest) \<and>
           (length old \<le> n \<longrightarrow> rest = []) \<and>
           (\<forall>p. p \<noteq> fileloc \<longrightarrow> files w' p = files w p) \<and>
           n \<le> length (Body resp) \<and>
           (err = None \<longrightarrow> n = length (Body resp)) \<and>
           (write_fails w fileloc = None \<and> Body_err resp = None \<longrightarrow>
              n = length (Body resp) \<and> err = None)))"
proof -
  let ?w1 = "w\<lparr>requests := requests w @ [req]\<rparr>"
  have A: "DownloadFile w fileloc u headers cookies = (Return (0, Some (NetError e)), ?w1)"
    if "server w (length (requests w)) req = Inl e" for e
    using that req old by (simp add: DownloadFile_def FileExists_def client_Do_Inl)
  have B: "DownloadFile w fileloc u headers cookies =
      writeToFileFromURL ?w1 fileloc u headers cookies"
    if "server w (length (requests w)) req = Inr head"
      and "Header_Get (resp_Header head) ''Content-Length'' = [] \<or>
         snd (ParseInt (Header_Get (resp_Header head) ''Content-Length'')) \<noteq> None" for head
    using that req old
    by (auto simp: DownloadFile_def FileExists_def client_Do_Inr split: prod.splits option.splits)
  have C: "DownloadFile w fileloc u headers cookies =
      writeToFileFromURL ?w1 fileloc u headers cookies"
    if "server w (length (requests w)) req = Inr head"
      and "ParseInt (Header_Get (resp_Header head) ''Content-Length'') = (n, None)" and "n < 0"
      and "open_fails w fileloc = None" and "fstat_fails w fileloc = None" for head n
    using that req old
    by (auto simp: DownloadFile_def FileExists_def client_Do_Inr os_Open_def File_Stat_Size_def)
  have D: "\<exists>n err w' rest.
           DownloadFile w fileloc u headers cookies = (Return (int n, err), w') \<and>
           requests w' = requests w @ [req, req] \<and>
           files w' fileloc = Some (take n (Body resp) @ rest) \<and>
           (length old \<le> n \<longrightarrow> rest = []) \<and>
           (\<forall>p. p \<noteq> fileloc \<longrightarrow> files w' p = files w p) \<and>
           n \<le> length (Body resp) \<and>
           (err = None \<longrightarrow> n = length (Body resp)) \<and>
           (write_fails w fileloc = None \<and> Body_err resp = None \<longrightarrow>
              n = length (Body resp) \<and> err = None)"
    if head: "server w (length (requests w)) req = Inr head"
      and bad: "Header_Get (resp_Header head) ''Content-Length'' = [] \<or>
         snd (ParseInt (Header_Get (resp_Header head) ''Content-Length'')) \<noteq> None \<or>
         (fst (ParseInt (Header_Get (resp_Header head) ''Content-Length'')) < 0 \<and>
          open_fails w fileloc = None \<and> fstat_fails w fileloc = None)"
      and srv: "server w (Suc (length (requests w))) req = Inr resp"
      and rw: "openrw_fails w fileloc = None" for head resp
  proof -
    have eq: "DownloadFile w fileloc u headers cookies =
        writeToFileFromURL ?w1 fileloc u headers cookies"
    proof (cases "Header_Get (resp_Header head) ''Content-Length'' = [] \<or>
         snd (ParseInt (Header_Get (resp_Header head) ''Content-Length'')) \<noteq> None")
      case True
      then show ?thesis by (rule B [OF head])
    next
      case False
      with bad have neg: "fst (ParseInt (Header_Get (resp_Header head) ''Content-Length'')) < 0"
        and o: "open_fails w fileloc = None" and s: "fstat_fails w fileloc = None"
        by auto
      from False have "ParseInt (Header_Get (resp_Header head) ''Content-Length'') =
          (fst (ParseInt (Header_Get (resp_Header head) ''Content-Length'')), None)"
        by (simp add: prod_eq_iff)
      from C [OF head this neg o s] show ?thesis .
    qed
    have 1: "newRequest ?w1 u headers cookies = Return (Inr req)"
      using req by simp
    have 2: "server ?w1 (length (requests ?w1)) req = Inr resp"
      using srv by simp
    have 3: "(if files ?w1 fileloc = None then create_fails ?w1 fileloc
              else openrw_fails ?w1 fileloc) = None"
      using old rw by simp
    from writeToFileFromURL_download [OF 1 2 3] old show ?thesis
      by (simp add: eq)
  qed
  from A B C D show ?thesis by blast
qed

text \<open>
  The four worlds: a failing preliminary request; no \<^verbatim>\<open>Content-Length\<close>; the header
  \<^verbatim>\<open>12a\<close>; the header \<^verbatim>\<open>-5\<close>. In the last three the 7 bytes sent replace the 5 on disk.
\<close>

theorem C4_witness:
  "DownloadFile world_prelim_fails ''a.bin'' (Some ''http://example.com/a.bin'') [] (Some []) =
     (Return (0, Some (NetError ''connection reset'')),
      world_prelim_fails\<lparr>requests := [plain_request]\<rparr>) \<and>
   fst (DownloadFile world_no_length ''a.bin'' (Some ''http://example.com/a.bin'') [] (Some []))
     = Return (7, None) \<and>
   files (snd (DownloadFile world_no_length ''a.bin'' (Some ''http://example.com/a.bin'') [] (Some [])))
     ''a.bin'' = Some ''worlds!'' \<and>
   fst (DownloadFile world_bad_length ''a.bin'' (Some ''http://example.com/a.bin'') [] (Some []))
     = Return (7, None) \<and>
   files (snd (DownloadFile world_bad_length ''a.bin'' (Some ''http://example.com/a.bin'') [] (Some [])))
     ''a.bin'' = Some ''worlds!'' \<and>
   fst (DownloadFile world_negative_length ''a.bin'' (Some ''http://example.com/a.bin'') [] (Some []))
     = Return (7, None) \<and>
   files (snd (DownloadFile world_negative_length ''a.bin'' (Some ''http://example.com/a.bin'') []
     (Some []))) ''a.bin'' = Some ''worlds!''"
proof -
  let ?u = "Some ''http://example.com/a.bin''"
  have 1: "newRequest w ?u [] (Some []) = Return (Inr plain_request)"
    if "userAgent w = userAgent world0" "url_Parse_fails w = url_Parse_fails world0" for w
    by (rule newRequest_plain) (simp_all add: that world0_def)
  have run: "fst (DownloadFile w ''a.bin'' ?u [] (Some [])) = Return (7, None) \<and>
      files (snd (DownloadFile w ''a.bin'' ?u [] (Some []))) ''a.bin'' = Some ''worlds!''"
    if r: "newRequest w ?u [] (Some []) = Return (Inr plain_request)"
      and f: "files w ''a.bin'' = Some ''hello''"
      and h: "server w (length (requests w)) plain_request = Inr head"
      and bad: "Header_Get (resp_Header head) ''Content-Length'' = [] \<or>
         snd (ParseInt (Header_Get (resp_Header head) ''Content-Length'')) \<noteq> None \<or>
         (fst (ParseInt (Header_Get (resp_Header head) ''Content-Length'')) < 0 \<and>
          open_fails w ''a.bin'' = None \<and> fstat_fails w ''a.bin'' = None)"
      and s: "server w (Suc (length (requests w))) plain_request = Inr resp"
      and rw: "openrw_fails w ''a.bin'' = None"
      and ok: "write_fails w ''a.bin'' = None" "Body_err resp = None" "Body resp = ''worlds!''"
    for w head resp
  proof -
    note T = C4_preliminary_request_outcomes [OF r f, THEN conjunct2, THEN conjunct2,
        THEN conjunct2, THEN spec, THEN spec, THEN mp]
    from T [OF conjI [OF h conjI [OF bad conjI [OF s rw]]]]
    obtain n err w' rest where
      x: "DownloadFile w ''a.bin'' ?u [] (Some []) = (Return (int n, err), w') \<and>
           requests w' = requests w @ [plain_request, plain_request] \<and>
           files w' ''a.bin'' = Some (take n (Body resp) @ rest) \<and>
           (length ''hello'' \<le> n \<longrightarrow> rest = []) \<and>
           (\<forall>p. p \<noteq> ''a.bin'' \<longrightarrow> files w' p = files w p) \<and>
           n \<le> length (Body resp) \<and>
           (err = None \<longrightarrow> n = length (Body resp)) \<and>
           (write_fails w ''a.bin'' = None \<and> Body_err resp = None \<longrightarrow>
              n = length (Body resp) \<and> err = None)"
      by (elim exE) (rule that)
    with ok show ?thesis by simp
  qed
  have A: "DownloadFile world_prelim_fails ''a.bin'' ?u [] (Some []) =
     (Return (0, Some (NetError ''connection reset'')),
      world_prelim_fails\<lparr>requests := [plain_request]\<rparr>)"
  proof -
    have r: "newRequest world_prelim_fails ?u [] (Some []) = Return (Inr plain_request)"
      by (simp add: 1 world_prelim_fails_def)
    have f: "files world_prelim_fails ''a.bin'' = Some ''hello''"
      by (simp add: world_prelim_fails_def)
    from C4_preliminary_request_outcomes [OF r f] show ?thesis
      by (simp add: world_prelim_fails_def world0_def)
  qed
  have B: "fst (DownloadFile world_no_length ''a.bin'' ?u [] (Some [])) = Return (7, None) \<and>
      files (snd (DownloadFile world_no_length ''a.bin'' ?u [] (Some []))) ''a.bin'' = Some ''worlds!''"
    by (rule run [where head = "reply_without_length ''worlds!''"
          and resp = "reply_without_length ''worlds!''"])
      (simp_all add: 1 world_no_length_def world0_def)
  have C: "fst (DownloadFile world_bad_length ''a.bin'' ?u [] (Some [])) = Return (7, None) \<and>
      files (snd (DownloadFile world_bad_length ''a.bin'' ?u [] (Some []))) ''a.bin'' = Some ''worlds!''"
    by (rule run [where head = "reply 200 ''12a'' ''worlds!''"
          and resp = "reply 200 ''12a'' ''worlds!''"])
      (simp_all add: 1 world_bad_length_def world0_def)
  have D: "fst (DownloadFile world_negative_length ''a.bin'' ?u [] (Some [])) = Return (7, None) \<and>
      files (snd (DownloadFile world_negative_length ''a.bin'' ?u [] (Some []))) ''a.bin'' = Some ''worlds!''"
    by (rule run [where head = "reply 200 ''-5'' ''worlds!''"
          and resp = "reply 200 ''-5'' ''worlds!''"])
      (simp_all add: 1 world_negative_length_def world0_def)
  from A B C D show ?thesis by simp
qed

subsection \<open>C5: no usable Content-Length forces the download\<close>



subsection \<open>C6: a failure to open or stat the local file is returned\<close>

text \<open>
  Claim C6. When the destination exists, the preliminary response carries a
  \<^verbatim>\<open>Content-Length\<close> that parses, and \<^verbatim>\<open>os.Open\<close> or \<^verbatim>\<open>File.Stat\<close> fails on the
  destination, \<open>DownloadFile\<close> returns the count 0 with that error. Nothing else
  happens: the world afterwards is the world before plus the one preliminary request, so
  no second request is made, no file is touched and nothing is printed.
\<close>

theorem C6_local_io_error_is_returned:
  assumes "newRequest w u headers cookies = Return (Inr req)"
    and "files w fileloc = Some bytes"
    and "server w (length (requests w)) req = Inr head"
    and "ParseInt (Header_Get (resp_Header head) ''Content-Length'') = (n, None)"
    and "open_fails w fileloc = Some e \<or>
         (open_fails w fileloc = None \<and> fstat_fails w fileloc = Some e)"
  shows "DownloadFile w fileloc u headers cookies =
           (Return (0, Some (PathError e)), w\<lparr>requests := requests w @ [req]\<rparr>)"
proof -
  have ne: "Header_Get (resp_Header head) ''Content-Length'' \<noteq> []"
    using assms(4) by auto
  show ?thesis
    using assms ne
    by (auto simp: DownloadFile_def FileExists_def client_Do_Inr os_Open_def File_Stat_Size_def)
qed

text \<open>
  In \<open>world_unreadable\<close> the file exists and \<^verbatim>\<open>os.Open\<close> fails; in \<open>world_stat_fails\<close>
  it opens and \<^verbatim>\<open>File.Stat\<close> fails. Both have the sizes equal, so that only the failure
  keeps the call from skipping.
\<close>

theorem C6_witness:
  "files world_unreadable ''a.bin'' = Some ''hello'' \<and>
   DownloadFile world_unreadable ''a.bin'' (Some ''http://example.com/a.bin'') [] (Some []) =
     (Return (0, Some (PathError ''permission denied'')),
      world_unreadable\<lparr>requests := [plain_request]\<rparr>) \<and>
   DownloadFile world_stat_fails ''a.bin'' (Some ''http://example.com/a.bin'') [] (Some []) =
     (Return (0, Some (PathError ''input/output error'')),
      world_stat_fails\<lparr>requests := [plain_request]\<rparr>)"
proof -
  have 1: "newRequest w (Some ''http://example.com/a.bin'') [] (Some []) =
      Return (Inr plain_request)"
    if "userAgent w = userAgent world0" "url_Parse_fails w = url_Parse_fails world0" for w
    by (rule newRequest_plain) (simp_all add: that world0_def)
  have r: "newRequest world_unreadable (Some ''http://example.com/a.bin'') [] (Some []) =
      Return (Inr plain_request)"
    "newRequest world_stat_fails (Some ''http://example.com/a.bin'') [] (Some []) =
      Return (Inr plain_request)"
    by (simp_all add: 1 world_unreadable_def world_stat_fails_def world_same_size_def)
  have f: "files world_unreadable ''a.bin'' = Some ''hello''"
    "files world_stat_fails ''a.bin'' = Some ''hello''"
    by (simp_all add: world_unreadable_def world_stat_fails_def world_same_size_def)
  have s: "server world_unreadable (length (requests world_unreadable)) plain_request =
      Inr (reply 200 ''5'' ''world'')"
    "server world_stat_fails (length (requests world_stat_fails)) plain_request =
      Inr (reply 200 ''5'' ''world'')"
    by (simp_all add: world_unreadable_def world_stat_fails_def world_same_size_def)
  have p: "ParseInt (Header_Get (resp_Header (reply 200 ''5'' ''world'')) ''Content-Length'') = (5, None)"
    by simp
  have o: "open_fails world_unreadable ''a.bin'' = Some ''permission denied'' \<or>
         (open_fails world_unreadable ''a.bin'' = None \<and>
          fstat_fails world_unreadable ''a.bin'' = Some ''permission denied'')"
    "open_fails world_stat_fails ''a.bin'' = Some ''input/output error'' \<or>
         (open_fails world_stat_fails ''a.bin'' = None \<and>
          fstat_fails world_stat_fails ''a.bin'' = Some ''input/output error'')"
    by (simp_all add: world_unreadable_def world_stat_fails_def world_same_size_def world0_def)
  from C6_local_io_error_is_returned [OF r(1) f(1) s(1) p o(1)]
    C6_local_io_error_is_returned [OF r(2) f(2) s(2) p o(2)] f(1)
  show ?thesis
    by (simp add: world_unreadable_def world_stat_fails_def world_same_size_def world0_def)
qed

subsection \<open>C7: headers and cookies on the outbound request\<close>

text \<open>
  Claim C7 says that every supplied cookie is attached to the outbound request and that
  every supplied header overrides a default of the same name, case-insensitively. The
  cookies are written into the header \<^verbatim>\<open>Cookie\<close> by \<^verbatim>\<open>AddCookie\<close>, and the headers are
  set afterwards with \<^verbatim>\<open>Header.Set\<close>, which replaces the value under the canonical key.
  So a supplied header named \<^verbatim>\<open>cookie\<close> removes the cookies: with the cookie \<^verbatim>\<open>a=b\<close> and
  the header \<^verbatim>\<open>cookie: x=y\<close> the one request sent by \<open>GetBodyFromURL\<close> carries the
  user agent and \<^verbatim>\<open>Cookie: x=y\<close>, and nothing else.
\<close>


theorem C7_counterexample:
  "cookie_pair world_absent \<lparr>cookie_Name = ''a'', cookie_Value = ''b''\<rparr> = ''a=b'' \<and>
   map req_Header
     (requests (snd (GetBodyFromURL world_absent (Some ''http://example.com/a.bin'')
        [(''cookie'', ''x=y'')]
        (Some [Some \<lparr>cookie_Name = ''a'', cookie_Value = ''b''\<rparr>])))) =
     [[''User-Agent'' \<mapsto> [''dl v0.0.1''], ''Cookie'' \<mapsto> [''x=y'']]]"
  by (simp add: GetBodyFromURL_def newRequest_def http_NewRequest_def AddCookie_def
        req_Header_Set_def Header_Set_def Header_Get_def client_Do_def Let_def cookie_pair_def
        world_absent_def world0_def)

text \<open>
  Claim C7, amended. Let \<open>req\<close> be the request the prologue builds. It is the request
  \<open>GetBodyFromURL\<close> and \<open>GetRespFromURL\<close> send, and the request \<open>DownloadFile\<close> sends
  once or twice. On it:
  \<^item> every supplied header name carries a supplied value under its canonical key: the
    value of a supplied header with the same canonical key (the one set last);
  \<^item> a supplied header with a valid name, when no other supplied header of the same
    name up to case has another value, is found under every spelling of its name, with
    its value: it overrides a default of the same name, case-insensitively. For
    \<^verbatim>\<open>User-Agent\<close> in any casing that is the process-wide user agent, which stays only
    when no supplied header has that name;
  \<^item> the cookies pointer is not nil and no cookie is nil; when no supplied header is
    named \<^verbatim>\<open>Cookie\<close> (up to case), the header \<^verbatim>\<open>Cookie\<close> lists every supplied cookie, in
    order, as \<^verbatim>\<open>name=value\<close> separated by \<^verbatim>\<open>"; "\<close> (it is absent when there is none).
    A supplied \<^verbatim>\<open>Cookie\<close> header replaces them, by the first item.
\<close>


theorem C7_headers_and_cookies_on_the_request:
  assumes req: "newRequest w u headers cookies = Return (Inr req)"
  shows
   "requests (snd (GetBodyFromURL w u headers cookies)) = requests w @ [req] \<and>
    requests (snd (GetRespFromURL w u headers cookies)) = requests w @ [req] \<and>
    (requests (snd (DownloadFile w fileloc u headers cookies)) = requests w @ [req] \<or>
     requests (snd (DownloadFile w fileloc u headers cookies)) = requests w @ [req, req]) \<and>
    (\<forall>k v. (k, v) \<in> set headers \<longrightarrow>
       (\<exists>k' v'. (k', v') \<in> set headers \<and>
          CanonicalMIMEHeaderKey k' = CanonicalMIMEHeaderKey k \<and>
          req_Header req (CanonicalMIMEHeaderKey k) = Some [v'])) \<and>
    (\<forall>k v. (k, v) \<in> set headers \<and> list_all validHeaderFieldByte k \<and>
       (\<forall>k' v'. (k', v') \<in> set headers \<and> same_name k' k \<longrightarrow> v' = v) \<longrightarrow>
       (\<forall>k0. same_name k0 k \<longrightarrow> Header_Get (req_Header req) k0 = v)) \<and>
    ((\<forall>k v. (k, v) \<in> set headers \<longrightarrow> \<not> same_name k ''User-Agent'') \<longrightarrow>
       Header_Get (req_Header req) ''User-Agent'' = userAgent w) \<and>
    (\<exists>cs. cookies = Some (map Some cs) \<and>
       ((\<forall>k v. (k, v) \<in> set headers \<longrightarrow> \<not> same_name k ''Cookie'') \<longrightarrow>
          req_Header req ''Cookie'' = (if cs = [] then None else Some [cookie_line w cs])))"
proof -
  let ?m = "map_of (rev (map (\<lambda>(k, v). (CanonicalMIMEHeaderKey k, v)) headers))"
  from newRequest_Header [OF req] obtain cs where
    cs: "cookies = Some (map Some cs)"
    and hdr: "\<And>K. req_Header req K =
       (case ?m K of
          Some v \<Rightarrow> Some [v]
        | None \<Rightarrow>
            if K = ''Cookie'' then (if cs = [] then None else Some [cookie_line w cs])
            else if K = ''User-Agent'' then Some [userAgent w]
            else None)"
    by blast
  have A: "requests (snd (GetBodyFromURL w u headers cookies)) = requests w @ [req]"
    using req by (simp add: GetBodyFromURL_def client_Do_def split: sum.splits)
  have B: "requests (snd (GetRespFromURL w u headers cookies)) = requests w @ [req]"
    using req by (simp add: GetRespFromURL_def client_Do_def)
  note C = DownloadFile_requests [OF req, of fileloc]
  have D: "\<exists>k' v'. (k', v') \<in> set headers \<and>
          CanonicalMIMEHeaderKey k' = CanonicalMIMEHeaderKey k \<and>
          req_Header req (CanonicalMIMEHeaderKey k) = Some [v']"
    if "(k, v) \<in> set headers" for k v
  proof -
    from map_of_canonical_Some [OF that, of CanonicalMIMEHeaderKey]
    obtain k' v' where "(k', v') \<in> set headers"
      "CanonicalMIMEHeaderKey k' = CanonicalMIMEHeaderKey k"
      "?m (CanonicalMIMEHeaderKey k) = Some v'"
      by blast
    then show ?thesis
      by (auto simp: hdr)
  qed
  have E: "Header_Get (req_Header req) k0 = v"
    if kv: "(k, v) \<in> set headers" and valid: "list_all validHeaderFieldByte k"
      and uniq: "\<forall>k' v'. (k', v') \<in> set headers \<and> same_name k' k \<longrightarrow> v' = v"
      and k0: "same_name k0 k" for k v k0
  proof -
    from D [OF kv] obtain k' v' where 1: "(k', v') \<in> set headers"
      and 2: "CanonicalMIMEHeaderKey k' = CanonicalMIMEHeaderKey k"
      and 3: "req_Header req (CanonicalMIMEHeaderKey k) = Some [v']"
      by blast
    from canonical_same_name [OF 2 valid] have "same_name k' k" .
    with uniq 1 have "v' = v" by blast
    moreover have "CanonicalMIMEHeaderKey k0 = CanonicalMIMEHeaderKey k"
      using same_name_canonical [OF k0] valid by simp
    ultimately show ?thesis
      using 3 by (simp add: Header_Get_def)
  qed
  have none: "?m K = None"
    if "\<forall>k v. (k, v) \<in> set headers \<longrightarrow> \<not> same_name k K"
      and "list_all validHeaderFieldByte K" and "CanonicalMIMEHeaderKey K = K" for K
  proof (rule map_of_canonical_None, intro allI impI)
    fix k v assume "(k, v) \<in> set headers"
    with that(1) have "\<not> same_name k K" by blast
    with canonical_same_name [of k K] that(2,3) show "CanonicalMIMEHeaderKey k \<noteq> K"
      by auto
  qed
  have F: "Header_Get (req_Header req) ''User-Agent'' = userAgent w"
    if "\<forall>k v. (k, v) \<in> set headers \<longrightarrow> \<not> same_name k ''User-Agent''"
    using none [OF that valid_User_Agent] by (simp add: Header_Get_def hdr)
  have G: "req_Header req ''Cookie'' = (if cs = [] then None else Some [cookie_line w cs])"
    if "\<forall>k v. (k, v) \<in> set headers \<longrightarrow> \<not> same_name k ''Cookie''"
    using none [OF that valid_Cookie] by (simp add: hdr)
  from A B C D E F G cs show ?thesis
    by blast
qed

text \<open>
  Two headers, \<^verbatim>\<open>user-agent: curl/8\<close> and \<^verbatim>\<open>Accept: text/plain\<close>, and the cookies
  \<^verbatim>\<open>a=b\<close> and \<^verbatim>\<open>c=d\<close>: the request sent has the user agent \<^verbatim>\<open>curl/8\<close> and
  \<^verbatim>\<open>Cookie: a=b; c=d\<close>.
\<close>

theorem C7_witness:
  "\<exists>r. requests (snd (GetRespFromURL world_absent (Some ''http://example.com/a.bin'')
           example_headers example_cookies)) = [r] \<and>
        Header_Get (req_Header r) ''User-Agent'' = ''curl/8'' \<and>
        req_Header r ''Cookie'' = Some [''a=b; c=d'']"
proof -
  obtain r where r: "newRequest world_absent (Some ''http://example.com/a.bin'')
      example_headers example_cookies = Return (Inr r)"
    by (simp add: newRequest_def http_NewRequest_def AddCookie_def Let_def
          req_Header_Set_def Header_Set_def Header_Get_def
          example_headers_def example_cookies_def world_absent_def world0_def)
  note T = C7_headers_and_cookies_on_the_request [OF r, of "''a.bin''"]
  have 1: "requests (snd (GetRespFromURL world_absent (Some ''http://example.com/a.bin'')
           example_headers example_cookies)) = [r]"
    using T by (simp add: world_absent_def world0_def)
  have "(''user-agent'', ''curl/8'') \<in> set example_headers \<and>
       list_all validHeaderFieldByte ''user-agent'' \<and>
       (\<forall>k' v'. (k', v') \<in> set example_headers \<and> same_name k' ''user-agent'' \<longrightarrow> v' = ''curl/8'')"
  proof (intro conjI)
    show "(''user-agent'', ''curl/8'') \<in> set example_headers"
      by (simp add: example_headers_def)
    show "list_all validHeaderFieldByte ''user-agent''"
      by (rule valid_lower_user_agent)
    show "\<forall>k' v'. (k', v') \<in> set example_headers \<and> same_name k' ''user-agent'' \<longrightarrow> v' = ''curl/8''"
      by (auto simp: example_headers_def same_name_examples)
  qed
  with T same_name_examples(1)
  have 2: "Header_Get (req_Header r) ''User-Agent'' = ''curl/8''"
    by blast
  have no: "\<forall>k v. (k, v) \<in> set example_headers \<longrightarrow> \<not> same_name k ''Cookie''"
    by (auto simp: example_headers_def same_name_examples)
  from T obtain cs where cs: "example_cookies = Some (map Some cs)"
    and ck: "(\<forall>k v. (k, v) \<in> set example_headers \<longrightarrow> \<not> same_name k ''Cookie'') \<longrightarrow>
          req_Header r ''Cookie'' = (if cs = [] then None else Some [cookie_line world_absent cs])"
    by blast
  from cs have "cs = [\<lparr>cookie_Name = ''a'', cookie_Value = ''b''\<rparr>,
      \<lparr>cookie_Name = ''c'', cookie_Value = ''d''\<rparr>]"
    by (auto simp: example_cookies_def)
  with ck no have 3: "req_Header r ''Cookie'' = Some [''a=b; c=d'']"
    by (simp add: cookie_line_def cookie_pair_def world_absent_def world0_def)
  from 1 2 3 show ?thesis by blast
qed

subsection \<open>C8: the body is returned whatever the status code\<close>

text \<open>
  Claim C8. \<open>GetBodyFromURL\<close> never looks at the status code. For every response
  received whose body is read to its end, whatever \<open>StatusCode\<close> it carries, the bytes of
  the body are returned with no error. When an error is returned, it is the error of
  \<^verbatim>\<open>http.NewRequest\<close> (request construction), or the error of \<^verbatim>\<open>client.Do\<close>, or the
  error the body stream ended with while being read (both transport failures).
\<close>


theorem C8_body_whatever_the_status:
  "(\<forall>req resp.
      newRequest w u headers cookies = Return (Inr req) \<and>
      server w (length (requests w)) req = Inr resp \<and> Body_err resp = None \<longrightarrow>
      GetBodyFromURL w u headers cookies =
        (Return (Body resp, None), w\<lparr>requests := requests w @ [req]\<rparr>)) \<and>
   (\<forall>bytes e.
      fst (GetBodyFromURL w u headers cookies) = Return (bytes, Some e) \<longrightarrow>
      newRequest w u headers cookies = Return (Inl e) \<or>
      (\<exists>req m. newRequest w u headers cookies = Return (Inr req) \<and>
         server w (length (requests w)) req = Inl m \<and> e = NetError m) \<or>
      (\<exists>req resp m. newRequest w u headers cookies = Return (Inr req) \<and>
         server w (length (requests w)) req = Inr resp \<and> Body_err resp = Some m \<and>
         e = NetError m))"
  by (auto simp: GetBodyFromURL_def client_Do_def ioutil_ReadAll_def
        split: outcome.splits sum.splits)

text \<open>A response with status 404 and the body \<^verbatim>\<open>not found\<close>: the body is returned.\<close>

theorem C8_witness:
  "StatusCode (reply 404 ''9'' ''not found'') = 404 \<and>
   server world_not_found 0 plain_request = Inr (reply 404 ''9'' ''not found'') \<and>
   GetBodyFromURL world_not_found (Some ''http://example.com/a.bin'') [] (Some []) =
     (Return (''not found'', None), world_not_found\<lparr>requests := [plain_request]\<rparr>)"
proof -
  have 1: "newRequest world_not_found (Some ''http://example.com/a.bin'') [] (Some []) =
      Return (Inr plain_request)"
    by (rule newRequest_plain) (simp_all add: world_not_found_def world0_def)
  have 2: "server world_not_found (length (requests world_not_found)) plain_request =
      Inr (reply 404 ''9'' ''not found'')"
    by (simp add: world_not_found_def)
  have 3: "Body_err (reply 404 ''9'' ''not found'') = None"
    by simp
  from C8_body_whatever_the_status [of world_not_found "Some ''http://example.com/a.bin''" "[]" "Some []"]
    1 2 3
  have "GetBodyFromURL world_not_found (Some ''http://example.com/a.bin'') [] (Some []) =
        (Return (Body (reply 404 ''9'' ''not found''), None),
         world_not_found\<lparr>requests := requests world_not_found @ [plain_request]\<rparr>)"
    by blast
  then show ?thesis
    by (simp add: world_not_found_def world0_def)
qed

subsection \<open>C9: the length header of the final response is only logged\<close>

text \<open>
  Claim C9. On the write path the \<^verbatim>\<open>Content-Length\<close> of the response is parsed for the
  progress message alone. Replace the header, in every response the server gives, by any
  value \<open>v\<close> (absent, unparseable or a number): \<open>writeToFileFromURL\<close> returns the same
  count and the same error, leaves the same files and makes the same requests. So a
  header that fails to parse gives the result a parseable one gives; only the debug line
  and the number printed after \<^verbatim>\<open>Downloading\<close> can differ.
\<close>


theorem C9_final_length_header_is_only_logged:
  "fst (writeToFileFromURL
          (w\<lparr>server := (\<lambda>n r. map_sum id
                 (\<lambda>resp. resp\<lparr>resp_Header := (resp_Header resp)(''Content-Length'' := v)\<rparr>)
                 (server w n r))\<rparr>)
          fileloc u headers cookies) =
   fst (writeToFileFromURL w fileloc u headers cookies) \<and>
   files (snd (writeToFileFromURL
          (w\<lparr>server := (\<lambda>n r. map_sum id
                 (\<lambda>resp. resp\<lparr>resp_Header := (resp_Header resp)(''Content-Length'' := v)\<rparr>)
                 (server w n r))\<rparr>)
          fileloc u headers cookies)) =
   files (snd (writeToFileFromURL w fileloc u headers cookies)) \<and>
   requests (snd (writeToFileFromURL
          (w\<lparr>server := (\<lambda>n r. map_sum id
                 (\<lambda>resp. resp\<lparr>resp_Header := (resp_Header resp)(''Content-Length'' := v)\<rparr>)
                 (server w n r))\<rparr>)
          fileloc u headers cookies)) =
   requests (snd (writeToFileFromURL w fileloc u headers cookies))"
proof -
  let ?s = "\<lambda>n r. map_sum id
                 (\<lambda>resp. resp\<lparr>resp_Header := (resp_Header resp)(''Content-Length'' := v)\<rparr>)
                 (server w n r)"
  let ?w = "w\<lparr>server := ?s\<rparr>"
  have nr: "newRequest ?w u headers cookies = newRequest w u headers cookies"
    by (rule newRequest_cong) simp_all
  show ?thesis
  proof (cases "newRequest w u headers cookies")
    case Panic
    then show ?thesis by (simp add: writeToFileFromURL_def nr)
  next
    case (Return r)
    show ?thesis
    proof (cases r)
      case (Inl e)
      with Return show ?thesis by (simp add: writeToFileFromURL_def nr)
    next
      case (Inr req)
      with Return have req: "newRequest w u headers cookies = Return (Inr req)"
        by simp
      with nr have req': "newRequest ?w u headers cookies = Return (Inr req)"
        by simp
      show ?thesis
      proof (cases "server w (length (requests w)) req")
        case (Inl m)
        with req show ?thesis
          by (simp add: writeToFileFromURL_def nr client_Do_def)
      next
        case (Inr resp)
        let ?resp = "resp\<lparr>resp_Header := (resp_Header resp)(''Content-Length'' := v)\<rparr>"
        let ?gate = "if files w fileloc = None then create_fails w fileloc
                     else openrw_fails w fileloc"
        have srv': "server ?w (length (requests ?w)) req = Inr ?resp"
          using Inr by simp
        from writeToFileFromURL_run [OF req Inr, of fileloc] obtain w5 where
          a: "files w5 = (if files w fileloc = None then (files w)(fileloc \<mapsto> []) else files w)"
            "requests w5 = requests w @ [req]" "write_fails w5 = write_fails w"
          and run: "case ?gate of
              Some e \<Rightarrow>
                fst (writeToFileFromURL w fileloc u headers cookies) = Return (0, Some (PathError e)) \<and>
                files (snd (writeToFileFromURL w fileloc u headers cookies)) = files w \<and>
                requests (snd (writeToFileFromURL w fileloc u headers cookies)) = requests w @ [req]
            | None \<Rightarrow>
                writeToFileFromURL w fileloc u headers cookies =
                  (case io_Copy w5 fileloc resp of (r, w') \<Rightarrow> (Return r, w'))"
          by (elim exE conjE) (erule that; assumption)
        have fw: "files ?w = files w" "create_fails ?w = create_fails w"
          "openrw_fails ?w = openrw_fails w" "requests ?w = requests w"
          "write_fails ?w = write_fails w"
          by simp_all
        note writeToFileFromURL_run [OF req' srv', of fileloc, unfolded fw]
        then obtain w5' where
          a': "files w5' = (if files w fileloc = None then (files w)(fileloc \<mapsto> []) else files w)"
            "requests w5' = requests w @ [req]" "write_fails w5' = write_fails w"
          and run': "case ?gate of
              Some e \<Rightarrow>
                fst (writeToFileFromURL ?w fileloc u headers cookies) = Return (0, Some (PathError e)) \<and>
                files (snd (writeToFileFromURL ?w fileloc u headers cookies)) = files w \<and>
                requests (snd (writeToFileFromURL ?w fileloc u headers cookies)) = requests w @ [req]
            | None \<Rightarrow>
                writeToFileFromURL ?w fileloc u headers cookies =
                  (case io_Copy w5' fileloc ?resp of (r, w') \<Rightarrow> (Return r, w'))"
          by (elim exE conjE) (erule that; assumption)
        show ?thesis
        proof (cases ?gate)
          case None
          have f: "files w5' = files w5" "write_fails w5' fileloc = write_fails w5 fileloc"
            "Body ?resp = Body resp" "Body_err ?resp = Body_err resp"
            using a a' by simp_all
          from None run run' show ?thesis
            by (simp add: case_prod_beta io_Copy_frame [OF f] a a')
        next
          case (Some e)
          with run run' show ?thesis by simp
        qed
      qed
    qed
  qed
qed

text \<open>
  In \<open>world_bad_length\<close> the header is \<^verbatim>\<open>12a\<close>, which does not parse: the download returns
  7 and no error, as it does when the header is replaced by \<^verbatim>\<open>7\<close>.
\<close>

theorem C9_witness:
  "snd (ParseInt ''12a'') \<noteq> None \<and>
   fst (writeToFileFromURL world_bad_length ''a.bin'' (Some ''http://example.com/a.bin'') []
          (Some [])) = Return (7, None) \<and>
   fst (writeToFileFromURL
          (world_bad_length\<lparr>server := (\<lambda>n r. map_sum id
                 (\<lambda>resp. resp\<lparr>resp_Header := (resp_Header resp)(''Content-Length'' \<mapsto> [''7''])\<rparr>)
                 (server world_bad_length n r))\<rparr>)
          ''a.bin'' (Some ''http://example.com/a.bin'') [] (Some [])) = Return (7, None)"
proof -
  have 1: "newRequest w (Some ''http://example.com/a.bin'') [] (Some []) =
      Return (Inr plain_request)"
    if "userAgent w = userAgent world0" "url_Parse_fails w = url_Parse_fails world0" for w
    by (rule newRequest_plain) (simp_all add: that world0_def)
  have a: "fst (writeToFileFromURL world_bad_length ''a.bin'' (Some ''http://example.com/a.bin'') []
          (Some [])) = Return (7, None)"
    by (simp add: run_defs 1 world_bad_length_def world0_def)
  from C9_final_length_header_is_only_logged
    [where w = world_bad_length and v = "Some [''7'']" and fileloc = "''a.bin''"
       and u = "Some ''http://example.com/a.bin''" and headers = "[]" and cookies = "Some []"]
    a
  show ?thesis by simp
qed

subsection \<open>C10: a nil cookies pointer\<close>

text \<open>
  Claim C10 says that every public function dereferences \<open>cookies\<close> before any other
  work, so that a call with a nil pointer always panics instead of returning an error.
  The functions first build the request with \<^verbatim>\<open>http.NewRequest\<close> and return its error
  (lines 56--59, 80--84, 99--103); the pointer is read after that. A \<^verbatim>\<open>*url.URL\<close> with
  scheme \<^verbatim>\<open>http\<close> and host \<^verbatim>\<open>[::1\<close> prints as \<^verbatim>\<open>http://[::1\<close>, which \<^verbatim>\<open>url.Parse\<close>
  rejects (the closing bracket is missing); \<open>world0\<close> records that. With this URL and a nil
  pointer all three functions return the error and do not panic.
\<close>


theorem C10_counterexample:
  "url_Parse_fails world0 ''http://[::1'' = Some ''missing ] in host'' \<and>
   GetBodyFromURL world0 (Some ''http://[::1'') [] None =
     (Return ([], Some (UrlError ''missing ] in host'')), world0) \<and>
   GetRespFromURL world0 (Some ''http://[::1'') [] None =
     (Return (Inl (UrlError ''missing ] in host'')), world0) \<and>
   DownloadFile world0 ''a.bin'' (Some ''http://[::1'') [] None =
     (Return (0, Some (UrlError ''missing ] in host'')), world0) \<and>
   fst (DownloadFile world0 ''a.bin'' (Some ''http://[::1'') [] None) \<noteq> Panic"
proof -
  have p: "url_Parse_fails world0 ''http://[::1'' = Some ''missing ] in host''"
    by (simp add: world0_def)
  have n: "newRequest world0 (Some ''http://[::1'') [] None =
      Return (Inl (UrlError ''missing ] in host''))"
    by (simp add: newRequest_def http_NewRequest_def p)
  show ?thesis
    by (simp add: p n GetBodyFromURL_def GetRespFromURL_def DownloadFile_def)
qed

text \<open>
  Claim C10, amended. For every call with a nil \<open>cookies\<close> pointer: when
  \<^verbatim>\<open>http.NewRequest\<close> accepts the URL the function panics, before any request is sent
  and before the file system is touched (the world is unchanged); when it rejects the
  URL the function returns that error and never reads the pointer; a nil \<open>u\<close> panics
  as well. With a non-nil URL and a non-nil pointer to a slice without nil entries,
  empty or not, no public function panics.
\<close>


theorem C10_nil_cookies_pointer:
  "(url_Parse_fails w url = None \<longrightarrow>
      GetBodyFromURL w (Some url) headers None = (Panic, w) \<and>
      GetRespFromURL w (Some url) headers None = (Panic, w) \<and>
      DownloadFile w fileloc (Some url) headers None = (Panic, w)) \<and>
   (\<forall>e. url_Parse_fails w url = Some e \<longrightarrow>
      GetBodyFromURL w (Some url) headers None = (Return ([], Some (UrlError e)), w) \<and>
      GetRespFromURL w (Some url) headers None = (Return (Inl (UrlError e)), w) \<and>
      DownloadFile w fileloc (Some url) headers None = (Return (0, Some (UrlError e)), w)) \<and>
   GetBodyFromURL w None headers None = (Panic, w) \<and>
   GetRespFromURL w None headers None = (Panic, w) \<and>
   DownloadFile w fileloc None headers None = (Panic, w) \<and>
   (None \<notin> set cs \<longrightarrow>
      fst (GetBodyFromURL w (Some url) headers (Some cs)) \<noteq> Panic \<and>
      fst (GetRespFromURL w (Some url) headers (Some cs)) \<noteq> Panic \<and>
      fst (DownloadFile w fileloc (Some url) headers (Some cs)) \<noteq> Panic)"
proof -
  have a: "newRequest w (Some url) headers None = Panic" if "url_Parse_fails w url = None"
    using that by (simp add: newRequest_def http_NewRequest_def)
  have b: "newRequest w (Some url) headers None = Return (Inl (UrlError e))"
    if "url_Parse_fails w url = Some e" for e
    using that by (simp add: newRequest_def http_NewRequest_def)
  have c: "newRequest w None headers None = Panic"
    by (simp add: newRequest_def)
  have d: "newRequest w (Some url) headers (Some cs) \<noteq> Panic" if nn: "None \<notin> set cs"
  proof (cases "url_Parse_fails w url")
    case None
    obtain r where "AddCookies w (req_Header_Set
        \<lparr>req_Method = ''GET'', req_URL = url, req_Header = Map.empty\<rparr>
        ''User-Agent'' (userAgent w)) cs = Some r"
      using AddCookies_no_nil [OF nn] by blast
    with None show ?thesis
      by (simp add: newRequest_def http_NewRequest_def)
  next
    case (Some e)
    then show ?thesis
      by (simp add: newRequest_def http_NewRequest_def)
  qed
  have e1: "fst (GetBodyFromURL w (Some url) headers (Some cs)) \<noteq> Panic" if "None \<notin> set cs"
    using d [OF that]
    by (auto simp: GetBodyFromURL_def split: outcome.splits sum.splits prod.splits)
  have e2: "fst (GetRespFromURL w (Some url) headers (Some cs)) \<noteq> Panic" if "None \<notin> set cs"
    using d [OF that]
    by (auto simp: GetRespFromURL_def split: outcome.splits sum.splits prod.splits)
  have w: "fst (writeToFileFromURL w' fileloc (Some url) headers (Some cs)) \<noteq> Panic"
    if "newRequest w' (Some url) headers (Some cs) \<noteq> Panic" for w'
    using that
    by (auto simp: writeToFileFromURL_def Let_def split: outcome.splits sum.splits prod.splits
          option.splits)
  have e3: "fst (DownloadFile w fileloc (Some url) headers (Some cs)) \<noteq> Panic" if "None \<notin> set cs"
    using d [OF that]
    by (auto simp: DownloadFile_def client_Do_def w Let_def
          split: outcome.splits sum.splits prod.splits option.splits)
  show ?thesis
    using a b c e1 e2 e3
    by (simp add: GetBodyFromURL_def GetRespFromURL_def DownloadFile_def)
qed

text \<open>The URL \<^verbatim>\<open>http://example.com/a.bin\<close> in \<open>world0\<close>, with nil and with an empty slice.\<close>

theorem C10_witness:
  "url_Parse_fails world0 ''http://example.com/a.bin'' = None \<and>
   GetBodyFromURL world0 (Some ''http://example.com/a.bin'') [] None = (Panic, world0) \<and>
   GetRespFromURL world0 (Some ''http://example.com/a.bin'') [] None = (Panic, world0) \<and>
   DownloadFile world0 ''a.bin'' (Some ''http://example.com/a.bin'') [] None = (Panic, world0) \<and>
   fst (GetBodyFromURL world0 (Some ''http://example.com/a.bin'') [] (Some [])) \<noteq> Panic \<and>
   fst (GetRespFromURL world0 (Some ''http://example.com/a.bin'') [] (Some [])) \<noteq> Panic \<and>
   fst (DownloadFile world0 ''a.bin'' (Some ''http://example.com/a.bin'') [] (Some [])) \<noteq> Panic"
proof -
  have p: "url_Parse_fails world0 ''http://example.com/a.bin'' = None"
    by (simp add: world0_def)
  have n: "None \<notin> set ([] :: cookie option list)"
    by simp
  from C10_nil_cookies_pointer [of world0 "''http://example.com/a.bin''" "[]" "''a.bin''" "[]"] p n
  show ?thesis by simp
qed

end
